theory Spec2Isabelle
  imports Main "HOL-Library.Word" "HOL-Library.List_Lexorder"
begin

section \<open>Data model of the gossip dispatcher\<close>

text \<open>
  The dispatcher (\<^verbatim>\<open>class Dispatcher\<close>) bridges documents to one pub/sub topic of an
  IPFS node. Its private methods are written with a leading underscore in the source
  (\<^verbatim>\<open>_subscribe\<close>, \<^verbatim>\<open>_hashMessage\<close>, ...); the underscore is dropped here.
  A \<^verbatim>\<open>Uint8Array\<close> is a list of bytes, a CID is the byte string naming a block.
\<close>

type_synonym byte = "8 word"
type_synonym bytes = "byte list"
type_synonym cid = bytes

text \<open>
  A \<^verbatim>\<open>DocID\<close> names a document (doctype and genesis CID) and optionally one commit of it;
  \<^verbatim>\<open>baseID\<close> forgets the commit.
\<close>

record docid =
  doctype :: nat
  genesis :: cid
  commit :: "cid option"

definition baseID :: "docid \<Rightarrow> docid" where
  "baseID d = d\<lparr>commit := None\<rparr>"

text \<open>What the dispatcher reads of a \<^verbatim>\<open>Document\<close>: its id and its current tip.\<close>

record document =
  doc_id :: docid
  tip :: cid

text \<open>
  \<^verbatim>\<open>MsgType\<close> is the enum of the three protocol messages. A value read from the wire
  may be none of them at run time; \<open>OtherTyp\<close> stands for such a value.
\<close>

datatype MsgType = UPDATE | QUERY | RESPONSE | OtherTyp nat

text \<open>
  The messages \<^verbatim>\<open>deserialize\<close> returns. The \<^verbatim>\<open>tips\<close> of a response are a
  \<^verbatim>\<open>Map\<close> from the string form of a document id to a tip, kept as an association list
  read with \<open>map_of\<close>.
\<close>

datatype pubsub_message =
    UpdateMessage docid cid
  | QueryMessage string docid
  | ResponseMessage string "(string \<times> cid) list"
  | OtherMessage nat

fun msg_typ :: "pubsub_message \<Rightarrow> MsgType" where
  "msg_typ (UpdateMessage d t) = UPDATE"
| "msg_typ (QueryMessage q d) = QUERY"
| "msg_typ (ResponseMessage q ts) = RESPONSE"
| "msg_typ (OtherMessage n) = OtherTyp n"

text \<open>Plain JavaScript objects, as far as the dispatcher builds them.\<close>

datatype jsvalue =
    JString string
  | JTyp MsgType
  | JBytes bytes
  | JObject "(string \<times> jsvalue) list"

text \<open>The payload of a QUERY as \<^verbatim>\<open>_buildQueryMessage\<close> returns it: typ, doc and id.\<close>

record query_payload =
  p_typ :: MsgType
  p_doc :: string
  p_id :: string

text \<open>
  A signed commit container is the pair of a JWS envelope and the block it links to;
  every other commit is a plain object (\<^verbatim>\<open>DoctypeUtils.isSignedCommitContainer\<close>
  tells them apart).
\<close>

record jws =
  link :: cid
  envelope :: jsvalue

datatype commit_data =
    SignedCommitContainer jws bytes
  | PlainCommit jsvalue

text \<open>
  The functions of other packages that the dispatcher calls, taken as parameters:
  the dag-cbor and dag-jose codecs, the SHA-256 digest, how the block store names a block
  of a format, the string form of a document id, and \<^verbatim>\<open>deserialize\<close> of the
  pubsub-message module. \<open>TESTING\<close> is the flag \<^verbatim>\<open>init\<close> reads from the process
  environment.
\<close>

datatype format = DagCbor | DagJose

record externals =
  dagCBOR_serialize :: "jsvalue \<Rightarrow> bytes"
  dagJOSE_serialize :: "jws \<Rightarrow> bytes"
  dag_decode :: "bytes \<Rightarrow> string option \<Rightarrow> jsvalue"
  sha256_hash :: "bytes \<Rightarrow> bytes"
  cid_of :: "format \<Rightarrow> bytes \<Rightarrow> cid"
  docid_toString :: "docid \<Rightarrow> string"
  deserialize :: "bytes \<Rightarrow> pubsub_message"
  TESTING :: bool

section \<open>Correlation ids\<close>

text \<open>
  \<^verbatim>\<open>multihashes.encode(buf, 'sha2-256')\<close> prefixes the digest with the code of the hash
  function (0x12) and the digest's length, both as unsigned varints.
\<close>

function varint :: "nat \<Rightarrow> bytes" where
  "varint n = (if n < 128 then [of_nat n] else of_nat (128 + n mod 128) # varint (n div 128))"
  by pat_completeness auto
termination
  by (relation "measure (\<lambda>n. n)") auto

declare varint.simps [simp del]

definition multihashes_encode :: "bytes \<Rightarrow> bytes" where
  "multihashes_encode digest = varint 18 @ varint (length digest) @ digest"

text \<open>
  \<^verbatim>\<open>uint8arrays.toString(bytes, 'base64url')\<close>: base64 over the URL-safe alphabet,
  without padding.
\<close>

definition base64url_alphabet :: string where
  "base64url_alphabet = ''ABCDEFGHIJKLMNOPQRSTUVWXYZabcdefghijklmnopqrstuvwxyz0123456789-_''"

definition sextet :: "nat \<Rightarrow> char" where
  "sextet i = base64url_alphabet ! (i mod 64)"

fun toString_base64url :: "bytes \<Rightarrow> string" where
  "toString_base64url (a # b # c # rest) =
     (let n = unat a * 65536 + unat b * 256 + unat c
      in sextet (n div 262144) # sextet (n div 4096) # sextet (n div 64) # sextet n
           # toString_base64url rest)"
| "toString_base64url [a, b] =
     (let n = unat a * 1024 + unat b * 4
      in [sextet (n div 4096), sextet (n div 64), sextet n])"
| "toString_base64url [a] =
     (let n = unat a * 16 in [sextet (n div 64), sextet n])"
| "toString_base64url [] = []"

text \<open>
  \<^verbatim>\<open>_hashMessage\<close>: dag-cbor, then SHA-256, then the multihash, then base64url.
\<close>

definition hashMessage :: "externals \<Rightarrow> jsvalue \<Rightarrow> string" where
  "hashMessage ext message =
     (let id0 = dagCBOR_serialize ext message;
          id1 = sha256_hash ext id0;
          buf = id1
      in toString_base64url (multihashes_encode buf))"

text \<open>
  \<^verbatim>\<open>_buildQueryMessage\<close>: the message is the pair of typ and doc, the id is the hash of
  that pair, and the result is the pair extended with the id.
\<close>

definition buildQueryMessage :: "externals \<Rightarrow> document \<Rightarrow> query_payload" where
  "buildQueryMessage ext doc =
     (let message_typ = QUERY;
          message_doc = docid_toString ext (baseID (doc_id doc));
          ident = hashMessage ext
                    (JObject [(''typ'', JTyp message_typ), (''doc'', JString message_doc)])
      in \<lparr>p_typ = message_typ, p_doc = message_doc, p_id = ident\<rparr>)"


section \<open>The IPFS node\<close>

text \<open>
  What the dispatcher sees of \<^verbatim>\<open>IpfsApi\<close>: the peer id, whether the node is embedded
  (\<^verbatim>\<open>libp2p\<close>), the block store, the topics the node is subscribed to
  (\<^verbatim>\<open>pubsub.ls()\<close>), and what was published. A message goes out either through
  \<^verbatim>\<open>serialize\<close> or, in \<^verbatim>\<open>register\<close>, through \<^verbatim>\<open>JSON.stringify\<close>.

  The client's calls can throw. Only \<^verbatim>\<open>_subscribe\<close> handles that, so the three calls it
  makes (\<^verbatim>\<open>ls\<close>, \<^verbatim>\<open>unsubscribe\<close> of the handler, \<^verbatim>\<open>subscribe\<close>) consult
  \<open>faults\<close>, the outcomes the node has in store for them, one per call: \<open>Answers\<close>
  lets the call through, \<open>Throws m\<close> makes it throw, and an empty script lets every
  call through. JavaScript can throw any value: \<open>m\<close> is the \<^verbatim>\<open>message\<close> of the thrown
  value when it has one that is a string, and \<open>None\<close> when it has none. Elsewhere an
  error of the client would reach the caller as it is, and the model follows the run in
  which the client answers; a block that is not in the store is the one failure kept
  there (the request times out).
\<close>

datatype wire = Serialized pubsub_message | Stringified query_payload

datatype outcome = Answers | Throws "string option"

record ipfs_node =
  node_id :: string
  libp2p :: bool
  blocks :: "cid \<rightharpoonup> bytes"
  subscriptions :: "string list"
  published :: "(string \<times> wire) list"
  faults :: "outcome list"

text \<open>
  \<^verbatim>\<open>_outstandingQueryIds\<close> is a plain object (\<^verbatim>\<open>{}\<close>) used as a dictionary, and
  \<^verbatim>\<open>_handleResponseMessage\<close> reads it by indexing. Indexing a plain object finds the
  entries stored in it and, for a key that is not stored, the members every plain object
  inherits from \<^verbatim>\<open>Object.prototype\<close>: functions, and for \<^verbatim>\<open>__proto__\<close> the prototype
  itself, all of them truthy. The value found is therefore either a stored document id
  or an inherited member, known by its name. The string form of an inherited function
  is the text of a native function; that of the prototype is \<^verbatim>\<open>[object Object]\<close>.
\<close>

definition object_prototype_names :: "string list" where
  "object_prototype_names =
     [''constructor'', ''__defineGetter__'', ''__defineSetter__'', ''hasOwnProperty'',
      ''__lookupGetter__'', ''__lookupSetter__'', ''isPrototypeOf'',
      ''propertyIsEnumerable'', ''toString'', ''valueOf'', ''__proto__'',
      ''toLocaleString'']"

datatype table_value = StoredDocID docid | PrototypeMember string

definition table_get :: "(string \<rightharpoonup> docid) \<Rightarrow> string \<Rightarrow> table_value option" where
  "table_get table key =
     (case table key of
        Some k \<Rightarrow> Some (StoredDocID k)
      | None \<Rightarrow> if key \<in> set object_prototype_names then Some (PrototypeMember key) else None)"

definition table_value_toString :: "externals \<Rightarrow> table_value \<Rightarrow> string" where
  "table_value_toString ext v =
     (case v of
        StoredDocID k \<Rightarrow> docid_toString ext k
      | PrototypeMember name \<Rightarrow>
          if name = ''__proto__'' then ''[object Object]''
          else ''function '' @ (if name = ''constructor'' then ''Object'' else name)
                 @ ''() { [native code] }'')"

datatype error =
    IpfsError string
  | TypeError string
  | RecordTooLarge cid nat nat
  | MissingTip string table_value
  | UnreachableCaseError pubsub_message

definition next_fault :: "ipfs_node \<Rightarrow> outcome \<times> ipfs_node" where
  "next_fault n = (case faults n of [] \<Rightarrow> (Answers, n) | f # fs \<Rightarrow> (f, n\<lparr>faults := fs\<rparr>))"

definition pubsub_ls :: "ipfs_node \<Rightarrow> (string option + string list) \<times> ipfs_node" where
  "pubsub_ls n =
     (case next_fault n of
        (Throws m, n') \<Rightarrow> (Inl m, n')
      | (Answers, n') \<Rightarrow> (Inr (subscriptions n'), n'))"

definition pubsub_unsubscribe_handler ::
  "string \<Rightarrow> ipfs_node \<Rightarrow> (string option + unit) \<times> ipfs_node" where
  "pubsub_unsubscribe_handler t n =
     (case next_fault n of
        (Throws m, n') \<Rightarrow> (Inl m, n')
      | (Answers, n') \<Rightarrow> (Inr (), n'\<lparr>subscriptions := removeAll t (subscriptions n')\<rparr>))"

definition pubsub_subscribe :: "string \<Rightarrow> ipfs_node \<Rightarrow> (string option + unit) \<times> ipfs_node" where
  "pubsub_subscribe t n =
     (case next_fault n of
        (Throws m, n') \<Rightarrow> (Inl m, n')
      | (Answers, n') \<Rightarrow>
          (Inr (), n'\<lparr>subscriptions :=
                        (if t \<in> set (subscriptions n') then subscriptions n'
                         else subscriptions n' @ [t])\<rparr>))"

definition pubsub_unsubscribe :: "string \<Rightarrow> ipfs_node \<Rightarrow> ipfs_node" where
  "pubsub_unsubscribe t n = n\<lparr>subscriptions := removeAll t (subscriptions n)\<rparr>"

definition pubsub_publish :: "string \<Rightarrow> wire \<Rightarrow> ipfs_node \<Rightarrow> ipfs_node" where
  "pubsub_publish t w n = n\<lparr>published := published n @ [(t, w)]\<rparr>"

definition dag_put :: "externals \<Rightarrow> format \<Rightarrow> bytes \<Rightarrow> ipfs_node \<Rightarrow> cid \<times> ipfs_node" where
  "dag_put ext fmt b n = (let c = cid_of ext fmt b in (c, n\<lparr>blocks := (blocks n)(c \<mapsto> b)\<rparr>))"

definition block_put :: "bytes \<Rightarrow> cid \<Rightarrow> ipfs_node \<Rightarrow> ipfs_node" where
  "block_put b c n = n\<lparr>blocks := (blocks n)(c \<mapsto> b)\<rparr>"

definition block_stat :: "cid \<Rightarrow> ipfs_node \<Rightarrow> error + nat" where
  "block_stat c n =
     (case blocks n c of
        None \<Rightarrow> Inl (IpfsError ''request timed out'')
      | Some b \<Rightarrow> Inr (length b))"

definition dag_get :: "externals \<Rightarrow> cid \<Rightarrow> string option \<Rightarrow> ipfs_node \<Rightarrow> error + jsvalue" where
  "dag_get ext c path n =
     (case blocks n c of
        None \<Rightarrow> Inl (IpfsError ''request timed out'')
      | Some b \<Rightarrow> Inr (dag_decode ext b path))"

section \<open>The document registry\<close>

text \<open>
  Modelled from the spec: the class \<^verbatim>\<open>Repository\<close> (\<^verbatim>\<open>add\<close>, \<^verbatim>\<open>get\<close>, \<^verbatim>\<open>has\<close>,
  \<^verbatim>\<open>delete\<close>, \<^verbatim>\<open>close\<close>) is not among the sources. The spec has it map a document id to
  the one live document of that id, a second \<open>add\<close> rebinding the id, and has
  \<^verbatim>\<open>close\<close> release the registry. A document id is the id without a commit, so the
  registry is keyed by \<open>baseID\<close>. Eviction by capacity is left out.
\<close>

type_synonym repository = "docid \<rightharpoonup> document"

definition repository_add :: "document \<Rightarrow> repository \<Rightarrow> repository" where
  "repository_add doc r = r(baseID (doc_id doc) \<mapsto> doc)"

definition repository_has :: "repository \<Rightarrow> docid \<Rightarrow> bool" where
  "repository_has r k = (r (baseID k) \<noteq> None)"

definition repository_get :: "repository \<Rightarrow> docid \<Rightarrow> document option" where
  "repository_get r k = r (baseID k)"

definition repository_delete :: "docid \<Rightarrow> repository \<Rightarrow> repository" where
  "repository_delete k r = r(baseID k := None)"

definition repository_close :: "repository \<Rightarrow> repository" where
  "repository_close r = Map.empty"

section \<open>The dispatcher\<close>

text \<open>
  The fields of the class. \<open>peerId\<close> is unset until \<^verbatim>\<open>init\<close>.
  \<open>resubscribeInterval\<close> is the handle of the timer armed last, if any. Beside the
  fields stands what the class leaves with the runtime and with its surroundings:
  \<open>intervals\<close>, the handles of the periodic timers that are armed;
  \<open>pendingRetries\<close>, the number of calls \<^verbatim>\<open>_subscribe(true)\<close> that the \<^verbatim>\<open>catch\<close> of
  \<^verbatim>\<open>_subscribe\<close> has started without awaiting them and that have not run yet;
  \<open>logged\<close>, the lines written to the two loggers; and \<open>emitted\<close>, the
  \<^verbatim>\<open>update\<close> events emitted on documents (the document's id and the new tip). A
  document answers an \<^verbatim>\<open>update\<close> event by handling the tip.
\<close>

datatype log_entry =
    Debug string
  | Err string
  | PubsubLog "string option" string string "wire option"

record dispatcher =
  ipfs :: ipfs_node
  topic :: string
  repository :: repository
  peerId :: "string option"
  outstandingQueryIds :: "string \<rightharpoonup> docid"
  isRunning :: bool
  resubscribeInterval :: "nat option"
  intervals :: "nat list"
  pendingRetries :: nat
  logged :: "log_entry list"
  emitted :: "(docid \<times> cid) list"

definition IPFS_MAX_RECORD_SIZE :: nat where
  "IPFS_MAX_RECORD_SIZE = 256000"

text \<open>The constructor: no outstanding query, running, no timer.\<close>

definition new_dispatcher :: "ipfs_node \<Rightarrow> string \<Rightarrow> repository \<Rightarrow> dispatcher" where
  "new_dispatcher n t r =
     \<lparr>ipfs = n, topic = t, repository = r, peerId = None, outstandingQueryIds = Map.empty,
      isRunning = True, resubscribeInterval = None, intervals = [], pendingRetries = 0,
      logged = [], emitted = []\<rparr>"

definition log_line :: "log_entry \<Rightarrow> dispatcher \<Rightarrow> dispatcher" where
  "log_line l d = d\<lparr>logged := logged d @ [l]\<rparr>"

subsection \<open>Subscribing\<close>

text \<open>\<^verbatim>\<open>String.prototype.includes\<close>: the text occurs somewhere in the string.\<close>

fun startsWith :: "string \<Rightarrow> string \<Rightarrow> bool" where
  "startsWith s [] = True"
| "startsWith [] (c # cs) = False"
| "startsWith (x # xs) (c # cs) = (x = c \<and> startsWith xs cs)"

fun str_includes :: "string \<Rightarrow> string \<Rightarrow> bool" where
  "str_includes [] t = (t = [])"
| "str_includes (x # xs) t = (startsWith (x # xs) t \<or> str_includes xs t)"

text \<open>
  The body of the \<^verbatim>\<open>try\<close> in \<^verbatim>\<open>_subscribe\<close>: the first call that throws ends it with
  what was thrown.
\<close>

definition subscribe_body :: "dispatcher \<Rightarrow> (string option + unit) \<times> dispatcher" where
  "subscribe_body d =
     (case pubsub_unsubscribe_handler (topic d) (ipfs d) of
        (Inl m, n1) \<Rightarrow> (Inl m, d\<lparr>ipfs := n1\<rparr>)
      | (Inr u, n1) \<Rightarrow>
          (case pubsub_subscribe (topic d) n1 of
             (Inl m, n2) \<Rightarrow> (Inl m, d\<lparr>ipfs := n2\<rparr>)
           | (Inr v, n2) \<Rightarrow>
               (Inr (), log_line (PubsubLog (peerId d) ''subscribed'' (topic d) None)
                          (d\<lparr>ipfs := n2\<rparr>))))"

definition subscribe_try :: "dispatcher \<Rightarrow> bool \<Rightarrow> (string option + unit) \<times> dispatcher" where
  "subscribe_try d force =
     (if force then subscribe_body d
      else (case pubsub_ls (ipfs d) of
              (Inl m, n1) \<Rightarrow> (Inl m, d\<lparr>ipfs := n1\<rparr>)
            | (Inr topics, n1) \<Rightarrow>
                if topic d \<notin> set topics then subscribe_body (d\<lparr>ipfs := n1\<rparr>)
                else (Inr (), d\<lparr>ipfs := n1\<rparr>)))"

text \<open>
  \<^verbatim>\<open>_subscribe\<close>. The \<^verbatim>\<open>catch\<close> reads \<^verbatim>\<open>error.message.includes(...)\<close>: on a thrown
  value without a message that expression itself throws a \<^verbatim>\<open>TypeError\<close>, which leaves
  \<^verbatim>\<open>_subscribe\<close> and reaches the caller. With a message, already subscribed is noted at
  debug level, an aborted request starts \<^verbatim>\<open>_subscribe(true)\<close>, and anything else is
  logged as an error. The retry is started and not awaited: \<^verbatim>\<open>_subscribe\<close> returns while
  the retry is still to run, so starting it adds one to \<open>pendingRetries\<close>, and
  \<open>subscribe_retry\<close> is the run of one pending retry, some time later. What a retry
  throws reaches no caller.
\<close>

definition subscribe_catch :: "dispatcher \<Rightarrow> string option \<Rightarrow> (error + unit) \<times> dispatcher" where
  "subscribe_catch d thrown =
     (case thrown of
        None \<Rightarrow> (Inl (TypeError ''error.message is undefined''), d)
      | Some msg \<Rightarrow>
          if str_includes msg ''Already subscribed'' then (Inr (), log_line (Debug msg) d)
          else if str_includes msg ''The user aborted a request''
            then (Inr (), d\<lparr>pendingRetries := Suc (pendingRetries d)\<rparr>)
          else (Inr (), log_line (Err msg) d))"

definition subscribe :: "dispatcher \<Rightarrow> bool \<Rightarrow> (error + unit) \<times> dispatcher" where
  "subscribe d force =
     (case subscribe_try d force of
        (Inr u, d') \<Rightarrow> (Inr (), d')
      | (Inl thrown, d') \<Rightarrow> subscribe_catch d' thrown)"

definition subscribe_retry :: "dispatcher \<Rightarrow> (error + unit) \<times> dispatcher" where
  "subscribe_retry d =
     (if pendingRetries d = 0 then (Inr (), d)
      else subscribe (d\<lparr>pendingRetries := pendingRetries d - 1\<rparr>) True)"

text \<open>
  \<^verbatim>\<open>_resubscribe\<close> arms one more periodic timer and keeps its handle in
  \<^verbatim>\<open>_resubscribeInterval\<close>, over the handle of an earlier timer. Each time an armed
  timer fires it runs \<^verbatim>\<open>_subscribe()\<close>, not forced; what that throws reaches no caller.
\<close>

definition resubscribe :: "dispatcher \<Rightarrow> dispatcher" where
  "resubscribe d =
     (let handle = Suc (foldr max (intervals d) 0)
      in d\<lparr>intervals := intervals d @ [handle], resubscribeInterval := Some handle\<rparr>)"

definition resubscribe_tick :: "dispatcher \<Rightarrow> nat \<Rightarrow> (error + unit) \<times> dispatcher" where
  "resubscribe_tick d handle =
     (if handle \<in> set (intervals d) then subscribe d False else (Inr (), d))"

text \<open>
  \<^verbatim>\<open>init\<close>: \<^verbatim>\<open>this._peerId || (await this._ipfs.id()).id\<close> keeps a peer id that is set
  and not the empty string, and asks the node otherwise. An error that leaves
  \<^verbatim>\<open>_subscribe(true)\<close> leaves \<^verbatim>\<open>init\<close> as well.
\<close>

definition init :: "externals \<Rightarrow> dispatcher \<Rightarrow> (error + unit) \<times> dispatcher" where
  "init ext d =
     (let d1 = d\<lparr>peerId := (case peerId d of
                                 Some p \<Rightarrow> if p = [] then Some (node_id (ipfs d)) else Some p
                               | None \<Rightarrow> Some (node_id (ipfs d)))\<rparr>
      in case subscribe d1 True of
           (Inl e, d2) \<Rightarrow> (Inl e, d2)
         | (Inr u, d2) \<Rightarrow>
             (Inr (), if \<not> TESTING ext \<and> \<not> libp2p (ipfs d2) then resubscribe d2 else d2))"

subsection \<open>Publishing and registering\<close>

text \<open>
  \<^verbatim>\<open>publish\<close> is the one sender that looks at \<^verbatim>\<open>_isRunning\<close>: on a closed dispatcher
  it writes an error line and returns.
\<close>

definition publish :: "dispatcher \<Rightarrow> pubsub_message \<Rightarrow> dispatcher" where
  "publish d message =
     (if \<not> isRunning d then log_line (Err ''Dispatcher has been closed'') d
      else log_line (PubsubLog (peerId d) ''published'' (topic d) (Some (Serialized message)))
             (d\<lparr>ipfs := pubsub_publish (topic d) (Serialized message) (ipfs d)\<rparr>))"

definition publishTip :: "dispatcher \<Rightarrow> docid \<Rightarrow> cid \<Rightarrow> dispatcher" where
  "publishTip d docId t = publish d (UpdateMessage (baseID docId) t)"

text \<open>
  \<^verbatim>\<open>register\<close>: add the document to the registry, build the QUERY, note its id in the
  table of outstanding queries, and publish it on the topic.
\<close>

definition register :: "externals \<Rightarrow> dispatcher \<Rightarrow> document \<Rightarrow> dispatcher" where
  "register ext d doc =
     (let d1 = d\<lparr>repository := repository_add doc (repository d)\<rparr>;
          payload = buildQueryMessage ext doc;
          d2 = d1\<lparr>outstandingQueryIds :=
                    (outstandingQueryIds d1)(p_id payload \<mapsto> baseID (doc_id doc))\<rparr>;
          d3 = d2\<lparr>ipfs := pubsub_publish (topic d2) (Stringified payload) (ipfs d2)\<rparr>
      in log_line (PubsubLog (peerId d3) ''published'' (topic d3) (Some (Stringified payload))) d3)"

definition unregister :: "dispatcher \<Rightarrow> docid \<Rightarrow> dispatcher" where
  "unregister d docId = d\<lparr>repository := repository_delete docId (repository d)\<rparr>"

subsection \<open>Storing and retrieving commits\<close>

text \<open>
  \<^verbatim>\<open>_restrictRecordSize\<close> asks the store for the size of the block and throws when it is
  larger than the maximum.
\<close>

definition restrictRecordSize :: "dispatcher \<Rightarrow> cid \<Rightarrow> error + unit" where
  "restrictRecordSize d c =
     (case block_stat c (ipfs d) of
        Inl e \<Rightarrow> Inl e
      | Inr sz \<Rightarrow>
          if sz > IPFS_MAX_RECORD_SIZE then Inl (RecordTooLarge c sz IPFS_MAX_RECORD_SIZE)
          else Inr ())"

text \<open>
  \<^verbatim>\<open>storeCommit\<close> returns the CID or throws; either way the dispatcher (and with it the
  store) is left as the calls made so far have left it, so the result is paired with the
  state.
\<close>

definition storeCommit :: "externals \<Rightarrow> dispatcher \<Rightarrow> commit_data \<Rightarrow> (error + cid) \<times> dispatcher" where
  "storeCommit ext d data =
     (case data of
        SignedCommitContainer j linkedBlock \<Rightarrow>
          (case dag_put ext DagJose (dagJOSE_serialize ext j) (ipfs d) of
             (c, n1) \<Rightarrow>
               (let d1 = d\<lparr>ipfs := block_put linkedBlock (link j) n1\<rparr>
                in case restrictRecordSize d1 (link j) of
                     Inl e \<Rightarrow> (Inl e, d1)
                   | Inr u \<Rightarrow>
                       (case restrictRecordSize d1 c of
                          Inl e \<Rightarrow> (Inl e, d1)
                        | Inr v \<Rightarrow> (Inr c, d1))))
      | PlainCommit v \<Rightarrow>
          (case dag_put ext DagCbor (dagCBOR_serialize ext v) (ipfs d) of
             (c, n1) \<Rightarrow>
               (let d1 = d\<lparr>ipfs := n1\<rparr>
                in case restrictRecordSize d1 c of
                     Inl e \<Rightarrow> (Inl e, d1)
                   | Inr u \<Rightarrow> (Inr c, d1))))"

definition retrieveCommit :: "externals \<Rightarrow> dispatcher \<Rightarrow> cid \<Rightarrow> error + jsvalue" where
  "retrieveCommit ext d c =
     (case dag_get ext c None (ipfs d) of
        Inl e \<Rightarrow> Inl e
      | Inr v \<Rightarrow>
          (case restrictRecordSize d c of
             Inl e \<Rightarrow> Inl e
           | Inr u \<Rightarrow> Inr v))"

definition retrieveFromIPFS :: "externals \<Rightarrow> dispatcher \<Rightarrow> cid \<Rightarrow> string option \<Rightarrow> error + jsvalue" where
  "retrieveFromIPFS ext d c path = dag_get ext c path (ipfs d)"

subsection \<open>Inbound messages\<close>

definition emit_update :: "docid \<Rightarrow> cid \<Rightarrow> dispatcher \<Rightarrow> dispatcher" where
  "emit_update k t d = d\<lparr>emitted := emitted d @ [(k, t)]\<rparr>"

definition handleUpdateMessage :: "dispatcher \<Rightarrow> docid \<Rightarrow> cid \<Rightarrow> dispatcher" where
  "handleUpdateMessage d doc t =
     (if repository_has (repository d) doc then
        (case repository_get (repository d) doc of
           Some document \<Rightarrow> emit_update (doc_id document) t d
         | None \<Rightarrow> d)
      else d)"

definition handleQueryMessage :: "externals \<Rightarrow> dispatcher \<Rightarrow> string \<Rightarrow> docid \<Rightarrow> dispatcher" where
  "handleQueryMessage ext d qid doc =
     (if repository_has (repository d) doc then
        (case repository_get (repository d) doc of
           Some document \<Rightarrow>
             publish d (ResponseMessage qid [(docid_toString ext doc, tip document)])
         | None \<Rightarrow> d)
      else d)"

text \<open>
  \<^verbatim>\<open>_handleResponseMessage\<close>: a response for whose id indexing the table finds nothing
  is not expected and is dropped; one whose tips lack the string form of the value found
  throws; otherwise the tip goes to the document, if the registry has it. The registry
  holds documents by document id, so it has none for a value that is an inherited member
  and not a document id.
\<close>

definition handleResponseMessage ::
  "externals \<Rightarrow> dispatcher \<Rightarrow> string \<Rightarrow> (string \<times> cid) list \<Rightarrow> error + dispatcher" where
  "handleResponseMessage ext d qid tips =
     (case table_get (outstandingQueryIds d) qid of
        None \<Rightarrow> Inr d
      | Some expected \<Rightarrow>
          (case map_of tips (table_value_toString ext expected) of
             None \<Rightarrow> Inl (MissingTip qid expected)
           | Some newTip \<Rightarrow>
               (case expected of
                  StoredDocID expectedDocID \<Rightarrow>
                    if repository_has (repository d) expectedDocID then
                      (case repository_get (repository d) expectedDocID of
                         Some document \<Rightarrow> Inr (emit_update (doc_id document) newTip d)
                       | None \<Rightarrow> Inr d)
                    else Inr d
                | PrototypeMember name \<Rightarrow> Inr d)))"

text \<open>
  An inbound message carries the peer it comes from and its bytes. \<^verbatim>\<open>handleMessage\<close>
  drops it on a closed dispatcher (with an error line) and when it comes from this peer;
  otherwise it is deserialized and dispatched on its typ.
\<close>

record inbound =
  sender :: string
  payload_data :: bytes

definition handleMessage :: "externals \<Rightarrow> dispatcher \<Rightarrow> inbound \<Rightarrow> error + dispatcher" where
  "handleMessage ext d message =
     (if \<not> isRunning d then Inr (log_line (Err ''Dispatcher has been closed'') d)
      else if Some (sender message) = peerId d then Inr d
      else (let parsed = deserialize ext (payload_data message)
            in case parsed of
                 QueryMessage qid doc \<Rightarrow> Inr (handleQueryMessage ext d qid doc)
               | ResponseMessage qid tips \<Rightarrow> handleResponseMessage ext d qid tips
               | UpdateMessage doc t \<Rightarrow> Inr (handleUpdateMessage d doc t)
               | OtherMessage n \<Rightarrow> Inl (UnreachableCaseError parsed)))"

subsection \<open>Closing\<close>

text \<open>
  \<^verbatim>\<open>clearInterval\<close> disarms the timer of the handle it is given and does nothing
  without a handle; \<^verbatim>\<open>close\<close> gives it the handle kept last.
\<close>

definition clearInterval :: "nat option \<Rightarrow> nat list \<Rightarrow> nat list" where
  "clearInterval handle armed =
     (case handle of None \<Rightarrow> armed | Some h \<Rightarrow> removeAll h armed)"

definition close :: "dispatcher \<Rightarrow> dispatcher" where
  "close d =
     (let d1 = d\<lparr>isRunning := False\<rparr>;
          d2 = d1\<lparr>intervals := clearInterval (resubscribeInterval d1) (intervals d1)\<rparr>;
          d3 = d2\<lparr>repository := repository_close (repository d2)\<rparr>
      in d3\<lparr>ipfs := pubsub_unsubscribe (topic d3) (ipfs d3)\<rparr>)"

subsection \<open>Lifetime of a dispatcher\<close>

text \<open>
  Every operation of the class, with the firing of a timer and the run of a pending
  retry, and the dispatcher it leaves behind whether it returned or threw. A lifetime is
  a list of operations run one after the other.
\<close>

datatype operation =
    Op_init
  | Op_subscribe bool
  | Op_subscribe_retry
  | Op_resubscribe
  | Op_resubscribe_tick nat
  | Op_register document
  | Op_unregister docid
  | Op_storeCommit commit_data
  | Op_retrieveCommit cid
  | Op_retrieveFromIPFS cid "string option"
  | Op_publishTip docid cid
  | Op_handleMessage inbound
  | Op_publish pubsub_message
  | Op_close

fun after :: "externals \<Rightarrow> dispatcher \<Rightarrow> operation \<Rightarrow> dispatcher" where
  "after ext d Op_init = snd (init ext d)"
| "after ext d (Op_subscribe force) = snd (subscribe d force)"
| "after ext d Op_subscribe_retry = snd (subscribe_retry d)"
| "after ext d Op_resubscribe = resubscribe d"
| "after ext d (Op_resubscribe_tick handle) = snd (resubscribe_tick d handle)"
| "after ext d (Op_register doc) = register ext d doc"
| "after ext d (Op_unregister k) = unregister d k"
| "after ext d (Op_storeCommit data) = snd (storeCommit ext d data)"
| "after ext d (Op_retrieveCommit c) = d"
| "after ext d (Op_retrieveFromIPFS c path) = d"
| "after ext d (Op_publishTip k t) = publishTip d k t"
| "after ext d (Op_handleMessage m) =
     (case handleMessage ext d m of Inl e \<Rightarrow> d | Inr d' \<Rightarrow> d')"
| "after ext d (Op_publish message) = publish d message"
| "after ext d Op_close = close d"

definition lifetime :: "externals \<Rightarrow> dispatcher \<Rightarrow> operation list \<Rightarrow> dispatcher" where
  "lifetime ext d ops = foldl (after ext) d ops"

section \<open>The document state machine\<close>

text \<open>
  Modelled from the spec: the class \<^verbatim>\<open>Document\<close> (\<^verbatim>\<open>_handleTip\<close> and its fork choice)
  is not among the sources, which hold only its tests. The spec's data model has three
  kinds of commit, each with its identifier; an anchor commit carries the timestamp of
  its proof. A log is the chain of commits from the genesis commit to the tip.
\<close>

datatype log_commit = GenesisCommit cid | SignedCommit cid | AnchorCommit cid nat

fun commit_cid :: "log_commit \<Rightarrow> cid" where
  "commit_cid (GenesisCommit c) = c"
| "commit_cid (SignedCommit c) = c"
| "commit_cid (AnchorCommit c ts) = c"

fun anchor_timestamp :: "log_commit \<Rightarrow> nat option" where
  "anchor_timestamp (GenesisCommit c) = None"
| "anchor_timestamp (SignedCommit c) = None"
| "anchor_timestamp (AnchorCommit c ts) = Some ts"

record doc_log =
  log_genesis :: log_commit
  log_rest :: "log_commit list"

definition log_tip :: "doc_log \<Rightarrow> log_commit" where
  "log_tip l = last (log_genesis l # log_rest l)"

definition tip_id :: "doc_log \<Rightarrow> cid" where
  "tip_id l = commit_cid (log_tip l)"

definition log_length :: "doc_log \<Rightarrow> nat" where
  "log_length l = Suc (length (log_rest l))"

definition tip_anchored :: "doc_log \<Rightarrow> bool" where
  "tip_anchored l = (anchor_timestamp (log_tip l) \<noteq> None)"

text \<open>
  Modelled from the spec: fork choice between the current log A and the candidate log
  B. If exactly one tip is anchored, the anchored log wins. If both are anchored, the
  earlier timestamp wins. If neither is anchored, the longer log wins. A tie is broken
  by the identifiers of the tips, compared as byte sequences: the smaller wins.
\<close>

definition smaller_identifier :: "doc_log \<Rightarrow> doc_log \<Rightarrow> doc_log" where
  "smaller_identifier A B = (if tip_id B < tip_id A then B else A)"

definition fork_choice :: "doc_log \<Rightarrow> doc_log \<Rightarrow> doc_log" where
  "fork_choice A B =
     (case (anchor_timestamp (log_tip A), anchor_timestamp (log_tip B)) of
        (Some ta, None) \<Rightarrow> A
      | (None, Some tb) \<Rightarrow> B
      | (Some ta, Some tb) \<Rightarrow>
          if ta < tb then A else if tb < ta then B else smaller_identifier A B
      | (None, None) \<Rightarrow>
          if log_length B < log_length A then A
          else if log_length A < log_length B then B
          else smaller_identifier A B)"

text \<open>
  Modelled from the spec: \<^verbatim>\<open>handleTip\<close>. A candidate that is the current tip changes
  nothing. Otherwise the candidate's log is fetched (\<open>fetchLog\<close>, the log the block
  store holds for a tip) and fork choice runs; the winner becomes the current log, and a
  change event with the new tip fires only if the winner's tip differs from the previous
  tip. \<open>handleTips\<close> delivers a list of tips one after the other.
\<close>

definition handleTip :: "(cid \<Rightarrow> doc_log) \<Rightarrow> doc_log \<Rightarrow> cid \<Rightarrow> doc_log \<times> cid option" where
  "handleTip fetchLog current candidateTip =
     (if candidateTip = tip_id current then (current, None)
      else (let winner = fork_choice current (fetchLog candidateTip)
            in (winner,
                if tip_id winner \<noteq> tip_id current then Some (tip_id winner) else None)))"

fun handleTips :: "(cid \<Rightarrow> doc_log) \<Rightarrow> doc_log \<Rightarrow> cid list \<Rightarrow> doc_log" where
  "handleTips fetchLog current [] = current"
| "handleTips fetchLog current (t # ts) =
     handleTips fetchLog (fst (handleTip fetchLog current t)) ts"

text \<open>
  Two relations used in the proofs: \<open>beats B A\<close> says that fork choice prefers B to A,
  and \<open>best_of\<close> that a log is among the current log and the fetched ones, and none of
  them is preferred to it.
\<close>

definition beats :: "doc_log \<Rightarrow> doc_log \<Rightarrow> bool" where
  "beats B A =
     (case (anchor_timestamp (log_tip A), anchor_timestamp (log_tip B)) of
        (Some ta, None) \<Rightarrow> False
      | (None, Some tb) \<Rightarrow> True
      | (Some ta, Some tb) \<Rightarrow> tb < ta \<or> (tb = ta \<and> tip_id B < tip_id A)
      | (None, None) \<Rightarrow>
          log_length A < log_length B \<or> (log_length A = log_length B \<and> tip_id B < tip_id A))"

definition best_of :: "(cid \<Rightarrow> doc_log) \<Rightarrow> doc_log \<Rightarrow> cid set \<Rightarrow> doc_log \<Rightarrow> bool" where
  "best_of F S T R =
     (F (tip_id R) = R \<and> (R = S \<or> R \<in> F ` T) \<and> \<not> beats S R \<and> (\<forall>t \<in> T. \<not> beats (F t) R))"

section \<open>An environment for examples\<close>

text \<open>
  Small stand-ins for the functions of other packages, used where a property is run on
  a concrete input. The properties themselves hold for every environment.
\<close>

definition example_chars :: "string \<Rightarrow> bytes" where
  "example_chars s = map (\<lambda>c. of_nat (of_char c)) s"

definition example_serialize :: "jsvalue \<Rightarrow> bytes" where
  "example_serialize v =
     (case v of
        JString s \<Rightarrow> example_chars s
      | JTyp t \<Rightarrow> [1]
      | JBytes b \<Rightarrow> b
      | JObject kvs \<Rightarrow> concat (map (\<lambda>(k, w). example_chars k) kvs))"

definition example_deserialize :: "bytes \<Rightarrow> pubsub_message" where
  "example_deserialize b =
     (case b of
        [] \<Rightarrow> OtherMessage 0
      | x # xs \<Rightarrow>
          if x = 0 then UpdateMessage \<lparr>doctype = 0, genesis = [7], commit = None\<rparr> xs
          else if x = 1 then QueryMessage ''q'' \<lparr>doctype = 0, genesis = xs, commit = None\<rparr>
          else if x = 2 then ResponseMessage ''EgEG'' [(''doc-7'', xs)]
          else OtherMessage (unat x))"

definition example_externals :: externals where
  "example_externals =
     \<lparr>dagCBOR_serialize = example_serialize,
      dagJOSE_serialize = (\<lambda>j. example_serialize (envelope j)),
      dag_decode = (\<lambda>b path. JBytes b),
      sha256_hash = (\<lambda>b. [of_nat (length b)]),
      cid_of = (\<lambda>fmt b. [case fmt of DagCbor \<Rightarrow> 113 | DagJose \<Rightarrow> 133, of_nat (length b)]),
      docid_toString =
        (\<lambda>k. ''doc-'' @ map (\<lambda>x. ''0123456789abcdef'' ! (unat x mod 16)) (genesis k)),
      deserialize = example_deserialize,
      TESTING = False\<rparr>"

definition example_node :: ipfs_node where
  "example_node =
     \<lparr>node_id = ''peer-1'', libp2p = False, blocks = Map.empty, subscriptions = [],
      published = [], faults = []\<rparr>"

definition example_docid :: docid where
  "example_docid = \<lparr>doctype = 0, genesis = [7], commit = None\<rparr>"

definition example_document :: document where
  "example_document = \<lparr>doc_id = example_docid, tip = [9]\<rparr>"

definition example_dispatcher :: dispatcher where
  "example_dispatcher = new_dispatcher example_node ''/ceramic/inmemory'' Map.empty"

definition example_registered :: dispatcher where
  "example_registered = register example_externals example_dispatcher example_document"

definition example_faulty :: "outcome list \<Rightarrow> dispatcher" where
  "example_faulty fs = example_dispatcher\<lparr>ipfs := example_node\<lparr>faults := fs\<rparr>\<rparr>"

definition example_subscribed :: dispatcher where
  "example_subscribed =
     example_dispatcher\<lparr>ipfs := example_node\<lparr>subscriptions := [''/ceramic/inmemory'']\<rparr>\<rparr>"

definition example_tips :: "(string \<times> cid) list" where
  "example_tips = [(''doc-7'', [5])]"

text \<open>
  The logs of the test "handles basic conflict": the initial state, and two branches
  from the anchored genesis, the valid update anchored before the conflicting one. A
  fourth log is long and not anchored.
\<close>

definition example_initial :: doc_log where
  "example_initial = \<lparr>log_genesis = GenesisCommit [1], log_rest = []\<rparr>"

definition example_valid :: doc_log where
  "example_valid =
     \<lparr>log_genesis = GenesisCommit [1],
      log_rest = [AnchorCommit [2] 10, SignedCommit [3], AnchorCommit [4] 20]\<rparr>"

definition example_invalid :: doc_log where
  "example_invalid =
     \<lparr>log_genesis = GenesisCommit [1],
      log_rest = [AnchorCommit [2] 10, SignedCommit [5], AnchorCommit [6] 30]\<rparr>"

definition example_long :: doc_log where
  "example_long =
     \<lparr>log_genesis = GenesisCommit [1],
      log_rest = [AnchorCommit [2] 10, SignedCommit [3], AnchorCommit [4] 20,
                  SignedCommit [7], SignedCommit [8]]\<rparr>"

definition example_fetchLog :: "cid \<Rightarrow> doc_log" where
  "example_fetchLog t =
     (if t = [4] then example_valid
      else if t = [6] then example_invalid
      else if t = [8] then example_long
      else \<lparr>log_genesis = GenesisCommit t, log_rest = []\<rparr>)"

section \<open>Properties\<close>

lemma example_docid_toString: "docid_toString example_externals example_docid = ''doc-7''"
  by (simp add: example_externals_def example_docid_def)

lemma example_query_id: "p_id (buildQueryMessage example_externals example_document) = ''EgEG''"
  by (simp add: buildQueryMessage_def hashMessage_def Let_def example_externals_def
                example_serialize_def example_document_def example_docid_def baseID_def
                multihashes_encode_def varint.simps example_chars_def sextet_def
                base64url_alphabet_def)

lemma example_base: "baseID example_docid = example_docid"
  by (simp add: baseID_def example_docid_def)

lemma example_document_id: "doc_id example_document = example_docid"
  by (simp add: example_document_def)

lemma example_registered_table:
  "outstandingQueryIds example_registered = [''EgEG'' \<mapsto> example_docid]"
  using example_query_id
  by (simp add: example_registered_def register_def Let_def log_line_def
                example_dispatcher_def new_dispatcher_def example_document_def
                example_docid_def baseID_def)

lemma example_registered_repository:
  "repository example_registered = [example_docid \<mapsto> example_document]"
  by (simp add: example_registered_def register_def Let_def log_line_def
                example_dispatcher_def new_dispatcher_def example_document_def
                example_docid_def baseID_def repository_add_def)

lemma example_registered_emitted: "emitted example_registered = []"
  by (simp add: example_registered_def register_def Let_def log_line_def
                example_dispatcher_def new_dispatcher_def)

lemma example_tips_lookup:
  "map_of example_tips (docid_toString example_externals example_docid) = Some [5]"
  by (simp add: example_tips_def example_docid_toString)

text \<open>
  C3. For every document, the correlation id of the QUERY built for it is the base64url
  text of the sha2-256 multihash of the dag-cbor serialization of the pair of typ QUERY
  and doc, the string form of the document's base id. The id is computed from that pair
  alone, so two documents with the same doc string get the same id.
\<close>

theorem query_id_is_hash_of_typ_and_doc:
  "p_typ (buildQueryMessage ext doc) = QUERY \<and>
   p_doc (buildQueryMessage ext doc) = docid_toString ext (baseID (doc_id doc)) \<and>
   p_id (buildQueryMessage ext doc) =
     toString_base64url (multihashes_encode (sha256_hash ext (dagCBOR_serialize ext
       (JObject [(''typ'', JTyp QUERY),
                 (''doc'', JString (docid_toString ext (baseID (doc_id doc))))])))) \<and>
   (\<forall>doc'. p_doc (buildQueryMessage ext doc') = p_doc (buildQueryMessage ext doc) \<longrightarrow>
            p_id (buildQueryMessage ext doc') = p_id (buildQueryMessage ext doc))"
  by (simp add: buildQueryMessage_def hashMessage_def Let_def)

theorem query_id_is_hash_of_typ_and_doc_witness:
  "p_doc (buildQueryMessage example_externals (example_document\<lparr>tip := [1]\<rparr>)) =
     p_doc (buildQueryMessage example_externals example_document) \<and>
   p_id (buildQueryMessage example_externals (example_document\<lparr>tip := [1]\<rparr>)) =
     p_id (buildQueryMessage example_externals example_document)"
proof -
  have same_doc:
    "p_doc (buildQueryMessage example_externals (example_document\<lparr>tip := [1]\<rparr>)) =
     p_doc (buildQueryMessage example_externals example_document)"
    by (simp add: buildQueryMessage_def Let_def)
  from query_id_is_hash_of_typ_and_doc [of example_externals example_document]
  have "\<forall>doc'. p_doc (buildQueryMessage example_externals doc') =
                 p_doc (buildQueryMessage example_externals example_document) \<longrightarrow>
               p_id (buildQueryMessage example_externals doc') =
                 p_id (buildQueryMessage example_externals example_document)"
    by blast
  with same_doc show ?thesis
    by blast
qed

text \<open>
  C4 (as the code has it). For every commit whose stored record is larger than 256,000
  bytes, \<^verbatim>\<open>storeCommit\<close> fails with the oversized-record error, and the record has
  been written to the block store by then and stays there: the size is that of the
  stored block, so the put comes before the check. For a signed commit container the
  linked block is checked first, then the envelope.
\<close>

theorem storeCommit_oversized_rejected_after_put:
  "(IPFS_MAX_RECORD_SIZE < length (dagCBOR_serialize ext v) \<longrightarrow>
      storeCommit ext d (PlainCommit v) =
        (Inl (RecordTooLarge (cid_of ext DagCbor (dagCBOR_serialize ext v))
                (length (dagCBOR_serialize ext v)) IPFS_MAX_RECORD_SIZE),
         d\<lparr>ipfs := block_put (dagCBOR_serialize ext v)
                      (cid_of ext DagCbor (dagCBOR_serialize ext v)) (ipfs d)\<rparr>)) \<and>
   (IPFS_MAX_RECORD_SIZE < length linkedBlock \<longrightarrow>
      storeCommit ext d (SignedCommitContainer j linkedBlock) =
        (Inl (RecordTooLarge (link j) (length linkedBlock) IPFS_MAX_RECORD_SIZE),
         d\<lparr>ipfs := block_put linkedBlock (link j)
                      (block_put (dagJOSE_serialize ext j)
                         (cid_of ext DagJose (dagJOSE_serialize ext j)) (ipfs d))\<rparr>)) \<and>
   (length linkedBlock \<le> IPFS_MAX_RECORD_SIZE \<and>
    IPFS_MAX_RECORD_SIZE < length (dagJOSE_serialize ext j) \<and>
    cid_of ext DagJose (dagJOSE_serialize ext j) \<noteq> link j \<longrightarrow>
      storeCommit ext d (SignedCommitContainer j linkedBlock) =
        (Inl (RecordTooLarge (cid_of ext DagJose (dagJOSE_serialize ext j))
                (length (dagJOSE_serialize ext j)) IPFS_MAX_RECORD_SIZE),
         d\<lparr>ipfs := block_put linkedBlock (link j)
                      (block_put (dagJOSE_serialize ext j)
                         (cid_of ext DagJose (dagJOSE_serialize ext j)) (ipfs d))\<rparr>))"
  by (simp add: storeCommit_def dag_put_def block_put_def restrictRecordSize_def
                block_stat_def Let_def)

theorem storeCommit_oversized_rejected_after_put_witness:
  "IPFS_MAX_RECORD_SIZE < length (dagCBOR_serialize example_externals (JBytes (replicate 300000 0))) \<and>
   fst (storeCommit example_externals example_dispatcher (PlainCommit (JBytes (replicate 300000 0)))) =
     Inl (RecordTooLarge [113, 224] 300000 256000) \<and>
   IPFS_MAX_RECORD_SIZE < length (replicate 300000 (0 :: byte)) \<and>
   fst (storeCommit example_externals example_dispatcher
          (SignedCommitContainer \<lparr>link = [1], envelope = JString ''jws''\<rparr> (replicate 300000 0))) =
     Inl (RecordTooLarge [1] 300000 256000) \<and>
   IPFS_MAX_RECORD_SIZE <
     length (dagJOSE_serialize example_externals \<lparr>link = [1], envelope = JBytes (replicate 300000 0)\<rparr>) \<and>
   fst (storeCommit example_externals example_dispatcher
          (SignedCommitContainer \<lparr>link = [1], envelope = JBytes (replicate 300000 0)\<rparr> [5])) =
     Inl (RecordTooLarge [133, 224] 300000 256000)"
proof -
  have big: "IPFS_MAX_RECORD_SIZE < length (dagCBOR_serialize example_externals (JBytes (replicate 300000 0)))"
    by (simp add: IPFS_MAX_RECORD_SIZE_def example_externals_def example_serialize_def)
  have big_block: "IPFS_MAX_RECORD_SIZE < length (replicate 300000 (0 :: byte))"
    by (simp add: IPFS_MAX_RECORD_SIZE_def)
  have big_jws:
    "length [5 :: byte] \<le> IPFS_MAX_RECORD_SIZE \<and>
     IPFS_MAX_RECORD_SIZE <
       length (dagJOSE_serialize example_externals \<lparr>link = [1], envelope = JBytes (replicate 300000 0)\<rparr>) \<and>
     cid_of example_externals DagJose
       (dagJOSE_serialize example_externals \<lparr>link = [1], envelope = JBytes (replicate 300000 0)\<rparr>) \<noteq>
       link \<lparr>link = [1], envelope = JBytes (replicate 300000 0)\<rparr>"
    by (simp add: IPFS_MAX_RECORD_SIZE_def example_externals_def example_serialize_def)
  note plain = storeCommit_oversized_rejected_after_put
      [where ext = example_externals and v = "JBytes (replicate 300000 0)"
         and d = example_dispatcher, THEN conjunct1, rule_format, OF big]
  note signed = storeCommit_oversized_rejected_after_put
      [where ext = example_externals and linkedBlock = "replicate 300000 0"
         and d = example_dispatcher and j = "\<lparr>link = [1], envelope = JString ''jws''\<rparr>",
       THEN conjunct2, THEN conjunct1, rule_format, OF big_block]
  note envelope = storeCommit_oversized_rejected_after_put
      [where ext = example_externals and linkedBlock = "[5]"
         and d = example_dispatcher
         and j = "\<lparr>link = [1], envelope = JBytes (replicate 300000 0)\<rparr>",
       THEN conjunct2, THEN conjunct2, rule_format, OF big_jws]
  have "fst (storeCommit example_externals example_dispatcher (PlainCommit (JBytes (replicate 300000 0)))) =
     Inl (RecordTooLarge [113, 224] 300000 256000)"
    unfolding plain
    by (simp add: IPFS_MAX_RECORD_SIZE_def example_externals_def example_serialize_def)
  moreover have "fst (storeCommit example_externals example_dispatcher
          (SignedCommitContainer \<lparr>link = [1], envelope = JString ''jws''\<rparr> (replicate 300000 0))) =
     Inl (RecordTooLarge [1] 300000 256000)"
    unfolding signed
    by (simp add: IPFS_MAX_RECORD_SIZE_def)
  moreover have "fst (storeCommit example_externals example_dispatcher
          (SignedCommitContainer \<lparr>link = [1], envelope = JBytes (replicate 300000 0)\<rparr> [5])) =
     Inl (RecordTooLarge [133, 224] 300000 256000)"
    unfolding envelope
    by (simp add: IPFS_MAX_RECORD_SIZE_def example_externals_def example_serialize_def)
  ultimately show ?thesis
    using big big_block big_jws by blast
qed

text \<open>
  C4 as stated fails: a record of 300,000 bytes is rejected, and it is in the block
  store after the failed call.
\<close>

theorem storeCommit_oversized_is_persisted:
  "fst (storeCommit example_externals example_dispatcher
          (PlainCommit (JBytes (replicate 300000 0)))) =
     Inl (RecordTooLarge [113, 224] 300000 256000) \<and>
   blocks (ipfs example_dispatcher) [113, 224] = None \<and>
   blocks (ipfs (snd (storeCommit example_externals example_dispatcher
          (PlainCommit (JBytes (replicate 300000 0)))))) [113, 224] =
     Some (replicate 300000 0)"
  by (simp add: storeCommit_def dag_put_def block_put_def restrictRecordSize_def
                block_stat_def Let_def example_externals_def example_serialize_def
                example_dispatcher_def new_dispatcher_def example_node_def
                IPFS_MAX_RECORD_SIZE_def)


text \<open>
  C5 (as the code has it). For every inbound RESPONSE message: if its correlation id
  has no entry in the table of outstanding queries and is not the name of a member that
  every plain object inherits, handling it changes nothing; if the id matches and the
  tips lack the expected document, handling fails with the missing-tip error; if the id
  matches, the tip is there and the registry has the document, one \<^verbatim>\<open>update\<close> event
  with the tip is emitted on that document; and if the registry does not have the
  document, nothing happens. \<^verbatim>\<open>handleMessage\<close> hands a RESPONSE from another peer to
  this handler while the dispatcher runs.
\<close>

theorem handleResponseMessage_cases:
  "(outstandingQueryIds d qid = None \<and> qid \<notin> set object_prototype_names \<longrightarrow>
      handleResponseMessage ext d qid tips = Inr d) \<and>
   (outstandingQueryIds d qid = Some k \<and> map_of tips (docid_toString ext k) = None \<longrightarrow>
      handleResponseMessage ext d qid tips = Inl (MissingTip qid (StoredDocID k))) \<and>
   (outstandingQueryIds d qid = Some k \<and> map_of tips (docid_toString ext k) = Some t \<and>
    repository_get (repository d) k = Some doc \<longrightarrow>
      handleResponseMessage ext d qid tips =
        Inr (d\<lparr>emitted := emitted d @ [(doc_id doc, t)]\<rparr>)) \<and>
   (outstandingQueryIds d qid = Some k \<and> map_of tips (docid_toString ext k) = Some t \<and>
    \<not> repository_has (repository d) k \<longrightarrow>
      handleResponseMessage ext d qid tips = Inr d) \<and>
   (isRunning d \<and> Some (sender m) \<noteq> peerId d \<and>
    deserialize ext (payload_data m) = ResponseMessage qid tips \<longrightarrow>
      handleMessage ext d m = handleResponseMessage ext d qid tips)"
  by (simp add: handleResponseMessage_def handleMessage_def table_get_def
                table_value_toString_def repository_has_def repository_get_def
                emit_update_def)

theorem handleResponseMessage_cases_witness:
  "handleResponseMessage example_externals example_dispatcher ''EgEG'' example_tips =
     Inr example_dispatcher \<and>
   handleResponseMessage example_externals example_registered ''EgEG'' [] =
     Inl (MissingTip ''EgEG'' (StoredDocID example_docid)) \<and>
   handleResponseMessage example_externals example_registered ''EgEG'' example_tips =
     Inr (example_registered\<lparr>emitted := [(example_docid, [5])]\<rparr>) \<and>
   handleResponseMessage example_externals (unregister example_registered example_docid)
       ''EgEG'' example_tips =
     Inr (unregister example_registered example_docid) \<and>
   handleMessage example_externals example_registered
       \<lparr>sender = ''peer-2'', payload_data = [2, 5]\<rparr> =
     Inr (example_registered\<lparr>emitted := [(example_docid, [5])]\<rparr>)"
proof -
  have no_entry:
    "outstandingQueryIds example_dispatcher ''EgEG'' = None \<and>
     ''EgEG'' \<notin> set object_prototype_names"
    by (simp add: example_dispatcher_def new_dispatcher_def object_prototype_names_def)
  have entry: "outstandingQueryIds example_registered ''EgEG'' = Some example_docid"
    by (simp add: example_registered_table)
  have entry': "outstandingQueryIds (unregister example_registered example_docid) ''EgEG'' =
      Some example_docid"
    by (simp add: unregister_def example_registered_table)
  have absent: "map_of [] (docid_toString example_externals example_docid) = (None :: cid option)"
    by simp
  have tracked: "repository_get (repository example_registered) example_docid = Some example_document"
    by (simp add: repository_get_def example_registered_repository baseID_def example_docid_def)
  have untracked:
    "\<not> repository_has (repository (unregister example_registered example_docid)) example_docid"
    by (simp add: repository_has_def unregister_def repository_delete_def)
  have inbound:
    "isRunning example_registered \<and>
     Some (sender \<lparr>sender = ''peer-2'', payload_data = [2, 5]\<rparr>) \<noteq> peerId example_registered \<and>
     deserialize example_externals (payload_data \<lparr>sender = ''peer-2'', payload_data = [2, 5]\<rparr>) =
       ResponseMessage ''EgEG'' example_tips"
    by (simp add: example_registered_def register_def Let_def log_line_def
                  example_dispatcher_def new_dispatcher_def example_externals_def
                  example_deserialize_def example_tips_def)
  note cases = handleResponseMessage_cases [where ext = example_externals and qid = "''EgEG''"]
  have a: "handleResponseMessage example_externals example_dispatcher ''EgEG'' example_tips =
      Inr example_dispatcher"
    using cases [where d = example_dispatcher and tips = example_tips] no_entry by blast
  have b: "handleResponseMessage example_externals example_registered ''EgEG'' [] =
      Inl (MissingTip ''EgEG'' (StoredDocID example_docid))"
    using cases [where d = example_registered and tips = "[]" and k = example_docid]
      entry absent by blast
  have c: "handleResponseMessage example_externals example_registered ''EgEG'' example_tips =
      Inr (example_registered\<lparr>emitted := [(example_docid, [5])]\<rparr>)"
    using cases [where d = example_registered and tips = example_tips and k = example_docid
        and t = "[5]" and doc = example_document]
      entry example_tips_lookup tracked
    by (simp add: example_registered_emitted example_document_def)
  have e: "handleResponseMessage example_externals (unregister example_registered example_docid)
       ''EgEG'' example_tips = Inr (unregister example_registered example_docid)"
    using cases [where d = "unregister example_registered example_docid" and tips = example_tips
        and k = example_docid and t = "[5]"]
      entry' example_tips_lookup untracked by blast
  have f: "handleMessage example_externals example_registered
       \<lparr>sender = ''peer-2'', payload_data = [2, 5]\<rparr> =
     handleResponseMessage example_externals example_registered ''EgEG'' example_tips"
    using cases [where d = example_registered and tips = example_tips
        and m = "\<lparr>sender = ''peer-2'', payload_data = [2, 5]\<rparr>"]
      inbound by blast
  from a b c e f show ?thesis
    by simp
qed

text \<open>
  C5 as stated fails in its last case: after a document is registered and unregistered
  again, a RESPONSE that matches the outstanding query and carries the document's tip is
  handled without an error and without an event.
\<close>

theorem handleResponseMessage_untracked_document:
  "outstandingQueryIds (unregister example_registered example_docid) ''EgEG'' =
     Some example_docid \<and>
   map_of example_tips (docid_toString example_externals example_docid) = Some [5] \<and>
   handleResponseMessage example_externals (unregister example_registered example_docid)
       ''EgEG'' example_tips =
     Inr (unregister example_registered example_docid) \<and>
   emitted (unregister example_registered example_docid) = []"
  by (simp add: handleResponseMessage_def table_get_def table_value_toString_def
                unregister_def example_registered_table
                example_tips_lookup repository_has_def repository_delete_def
                example_registered_emitted)

text \<open>
  The first case of C5 also fails, by a slip of the code that the statement above leaves
  out: the table is indexed as a plain object, so an id that names an inherited member
  finds that member although no query with this id was ever sent, and the handler goes on
  to look for a tip under the member's string form. On a dispatcher with an empty table a
  RESPONSE with the id \<^verbatim>\<open>constructor\<close> fails with the missing-tip error.
\<close>

lemma handleResponseMessage_inherited_name:
  "outstandingQueryIds d qid = None \<Longrightarrow> qid \<in> set object_prototype_names \<Longrightarrow>
   map_of tips (table_value_toString ext (PrototypeMember qid)) = None \<Longrightarrow>
     handleResponseMessage ext d qid tips = Inl (MissingTip qid (PrototypeMember qid))"
  by (simp add: handleResponseMessage_def table_get_def)

lemma handleResponseMessage_constructor:
  "outstandingQueryIds example_dispatcher ''constructor'' = None \<and>
   table_value_toString example_externals (PrototypeMember ''constructor'') =
     ''function Object() { [native code] }'' \<and>
   handleResponseMessage example_externals example_dispatcher ''constructor'' example_tips =
     Inl (MissingTip ''constructor'' (PrototypeMember ''constructor''))"
  by (simp add: handleResponseMessage_def table_get_def table_value_toString_def
                object_prototype_names_def example_dispatcher_def new_dispatcher_def
                example_tips_def)

text \<open>
  No id that \<^verbatim>\<open>register\<close> stores names an inherited member: a multihash starts with
  the byte 0x12, so its base64url text starts with the letter E. Storing under such an
  id is therefore storing an entry of the table.
\<close>

lemma varint_not_empty: "varint n \<noteq> []"
  by (subst varint.simps) simp

lemma base64url_of_multihash:
  "\<exists>rest. toString_base64url (multihashes_encode digest) = CHR ''E'' # rest"
proof -
  obtain x xs where len: "varint (length digest) = x # xs"
    using varint_not_empty [of "length digest"] by (cases "varint (length digest)") auto
  have code: "varint 18 = [18]"
    by (subst varint.simps) simp
  have small: "unat x < 256"
    using unsigned_less [of x] by simp
  have four: "sextet 4 = CHR ''E''"
    by (simp add: sextet_def base64url_alphabet_def)
  show ?thesis
  proof (cases "xs @ digest")
    case Nil
    have "(18432 + unat x * 4) div 4096 = 4"
      using small by simp
    with Nil len code four show ?thesis
      by (simp add: multihashes_encode_def Let_def)
  next
    case (Cons y ys)
    have "unat y < 256"
      using unsigned_less [of y] by simp
    with small have "(1179648 + unat x * 256 + unat y) div 262144 = 4"
      by simp
    with Cons len code four show ?thesis
      by (simp add: multihashes_encode_def Let_def)
  qed
qed

lemma query_id_not_inherited:
  "p_id (buildQueryMessage ext doc) \<notin> set object_prototype_names"
proof -
  obtain rest where "p_id (buildQueryMessage ext doc) = CHR ''E'' # rest"
    using base64url_of_multihash
    by (auto simp: buildQueryMessage_def hashMessage_def Let_def)
  then show ?thesis
    by (simp add: object_prototype_names_def)
qed

text \<open>
  C6. The claim holds of the first RESPONSE and the code departs from it at the second.
  After \<^verbatim>\<open>register\<close> has sent the QUERY for document D with correlation id Q, a
  RESPONSE with id Q and D's tip emits one \<^verbatim>\<open>update\<close> event with that tip on D.
\<close>

lemma first_response_after_register:
  assumes "map_of tips (docid_toString ext (baseID (doc_id doc))) = Some tipZ"
  shows
    "outstandingQueryIds (register ext d doc) (p_id (buildQueryMessage ext doc)) =
       Some (baseID (doc_id doc)) \<and>
     handleResponseMessage ext (register ext d doc) (p_id (buildQueryMessage ext doc)) tips =
       Inr (emit_update (doc_id doc) tipZ (register ext d doc)) \<and>
     emitted (emit_update (doc_id doc) tipZ (register ext d doc)) =
       emitted d @ [(doc_id doc, tipZ)]"
  using assms
  by (simp add: handleResponseMessage_def table_get_def table_value_toString_def
                register_def Let_def log_line_def emit_update_def
                repository_has_def repository_get_def repository_add_def baseID_def)

text \<open>
  C6, the code at the failing input. The field is documented as the ids of the queries
  for which no RESPONSE has been heard yet, and the claim has the entry removed when the
  RESPONSE arrives. No line of the class removes an entry: after the first RESPONSE the
  entry for Q is still in the table, and a second RESPONSE with the same id is handled
  like the first and emits a second event.
\<close>

theorem second_response_is_handled_again:
  "handleResponseMessage example_externals example_registered ''EgEG'' example_tips =
     Inr (emit_update example_docid [5] example_registered) \<and>
   outstandingQueryIds (emit_update example_docid [5] example_registered) ''EgEG'' =
     Some example_docid \<and>
   handleResponseMessage example_externals (emit_update example_docid [5] example_registered)
       ''EgEG'' example_tips =
     Inr (emit_update example_docid [5] (emit_update example_docid [5] example_registered)) \<and>
   emitted (emit_update example_docid [5] (emit_update example_docid [5] example_registered)) =
     [(example_docid, [5]), (example_docid, [5])]"
  by (simp add: handleResponseMessage_def table_get_def table_value_toString_def
                emit_update_def example_registered_table
                example_tips_lookup repository_has_def repository_get_def
                example_registered_repository example_registered_emitted
                example_base example_document_id)

text \<open>
  C7 (as the code has it). On a dispatcher that is not running, \<^verbatim>\<open>publish\<close>,
  \<^verbatim>\<open>publishTip\<close> and \<^verbatim>\<open>handleMessage\<close> write the line "Dispatcher has been closed" to
  the error log and return, leaving the node and every other field as they were.
  \<^verbatim>\<open>close\<close> leaves the dispatcher not running, and a second \<^verbatim>\<open>close\<close> changes nothing.
  The other operations are not covered.
\<close>

theorem closed_dispatcher_drops_messages:
  "(\<not> isRunning d \<longrightarrow>
      publish d message = d\<lparr>logged := logged d @ [Err ''Dispatcher has been closed'']\<rparr> \<and>
      publishTip d docId t = d\<lparr>logged := logged d @ [Err ''Dispatcher has been closed'']\<rparr> \<and>
      handleMessage ext d m = Inr (d\<lparr>logged := logged d @ [Err ''Dispatcher has been closed'']\<rparr>)) \<and>
   \<not> isRunning (close d) \<and>
   close (close d) = close d"
  by (simp add: publish_def publishTip_def handleMessage_def log_line_def close_def Let_def
                pubsub_unsubscribe_def repository_close_def clearInterval_def
           split: option.splits)

theorem closed_dispatcher_drops_messages_witness:
  "\<not> isRunning (close example_registered) \<and>
   published (ipfs (publish (close example_registered) (UpdateMessage example_docid [9]))) =
     published (ipfs example_registered) \<and>
   logged (publish (close example_registered) (UpdateMessage example_docid [9])) =
     logged example_registered @ [Err ''Dispatcher has been closed'']"
proof -
  have closed: "\<not> isRunning (close example_registered)"
    by (simp add: close_def Let_def)
  from closed_dispatcher_drops_messages
         [where d = "close example_registered" and message = "UpdateMessage example_docid [9]",
          THEN conjunct1, rule_format, OF closed, THEN conjunct1]
  have "publish (close example_registered) (UpdateMessage example_docid [9]) =
          (close example_registered)
            \<lparr>logged := logged (close example_registered) @ [Err ''Dispatcher has been closed'']\<rparr>" .
  with closed show ?thesis
    by (simp add: close_def Let_def pubsub_unsubscribe_def)
qed

text \<open>
  C7 as stated fails: on a closed dispatcher \<^verbatim>\<open>register\<close> still publishes the QUERY
  and \<^verbatim>\<open>storeCommit\<close> still writes to the block store and returns the CID.
\<close>

theorem closed_dispatcher_still_does_io:
  "isRunning (close example_dispatcher) = False \<and>
   published (ipfs (close example_dispatcher)) = [] \<and>
   published (ipfs (register example_externals (close example_dispatcher) example_document)) =
     [(''/ceramic/inmemory'', Stringified \<lparr>p_typ = QUERY, p_doc = ''doc-7'', p_id = ''EgEG''\<rparr>)] \<and>
   fst (storeCommit example_externals (close example_dispatcher) (PlainCommit (JString ''abc''))) =
     Inr [113, 3] \<and>
   blocks (ipfs (snd (storeCommit example_externals (close example_dispatcher)
                        (PlainCommit (JString ''abc''))))) [113, 3] =
     Some [97, 98, 99]"
proof -
  have payload: "buildQueryMessage example_externals example_document =
      \<lparr>p_typ = QUERY, p_doc = ''doc-7'', p_id = ''EgEG''\<rparr>"
    using example_query_id example_docid_toString
    by (simp add: buildQueryMessage_def Let_def baseID_def example_document_def example_docid_def)
  have "published (ipfs (register example_externals (close example_dispatcher) example_document)) =
     [(''/ceramic/inmemory'', Stringified \<lparr>p_typ = QUERY, p_doc = ''doc-7'', p_id = ''EgEG''\<rparr>)]"
    by (simp add: register_def Let_def log_line_def payload close_def pubsub_unsubscribe_def
                  pubsub_publish_def example_dispatcher_def new_dispatcher_def example_node_def)
  moreover have "fst (storeCommit example_externals (close example_dispatcher)
                        (PlainCommit (JString ''abc''))) = Inr [113, 3] \<and>
     blocks (ipfs (snd (storeCommit example_externals (close example_dispatcher)
                        (PlainCommit (JString ''abc''))))) [113, 3] = Some [97, 98, 99]"
    by (simp add: storeCommit_def dag_put_def restrictRecordSize_def block_stat_def Let_def
                  example_externals_def example_serialize_def example_chars_def
                  IPFS_MAX_RECORD_SIZE_def)
  moreover have "isRunning (close example_dispatcher) = False \<and>
     published (ipfs (close example_dispatcher)) = []"
    by (simp add: close_def Let_def pubsub_unsubscribe_def example_dispatcher_def
                  new_dispatcher_def example_node_def)
  ultimately show ?thesis
    by blast
qed

text \<open>
  C9 (as the code has it). While the dispatcher runs, every inbound message from another
  peer that deserializes to a typ outside QUERY, RESPONSE and UPDATE makes
  \<^verbatim>\<open>handleMessage\<close> fail with the unreachable-case error. A message from this peer is
  dropped before it is deserialized, whatever its typ, and so is every message on a
  closed dispatcher.
\<close>

theorem handleMessage_unknown_typ:
  "(isRunning d \<and> Some (sender m) \<noteq> peerId d \<and>
    msg_typ (deserialize ext (payload_data m)) \<notin> {QUERY, RESPONSE, UPDATE} \<longrightarrow>
      handleMessage ext d m = Inl (UnreachableCaseError (deserialize ext (payload_data m)))) \<and>
   (isRunning d \<and> Some (sender m) = peerId d \<longrightarrow> handleMessage ext d m = Inr d) \<and>
   (\<not> isRunning d \<longrightarrow>
      handleMessage ext d m = Inr (log_line (Err ''Dispatcher has been closed'') d))"
  by (cases "deserialize ext (payload_data m)") (simp_all add: handleMessage_def)

theorem handleMessage_unknown_typ_witness:
  "msg_typ (deserialize example_externals (payload_data \<lparr>sender = ''peer-2'', payload_data = [9]\<rparr>)) =
     OtherTyp 9 \<and>
   handleMessage example_externals (example_dispatcher\<lparr>peerId := Some ''peer-1''\<rparr>)
       \<lparr>sender = ''peer-2'', payload_data = [9]\<rparr> =
     Inl (UnreachableCaseError (OtherMessage 9)) \<and>
   handleMessage example_externals (example_dispatcher\<lparr>peerId := Some ''peer-1''\<rparr>)
       \<lparr>sender = ''peer-1'', payload_data = [9]\<rparr> =
     Inr (example_dispatcher\<lparr>peerId := Some ''peer-1''\<rparr>) \<and>
   handleMessage example_externals (close example_dispatcher)
       \<lparr>sender = ''peer-2'', payload_data = [9]\<rparr> =
     Inr (log_line (Err ''Dispatcher has been closed'') (close example_dispatcher))"
proof -
  have parsed: "deserialize example_externals [9] = OtherMessage 9"
    by (simp add: example_externals_def example_deserialize_def)
  have running: "isRunning (example_dispatcher\<lparr>peerId := Some ''peer-1''\<rparr>)"
    by (simp add: example_dispatcher_def new_dispatcher_def)
  have closed: "\<not> isRunning (close example_dispatcher)"
    by (simp add: close_def Let_def)
  note cases = handleMessage_unknown_typ [where ext = example_externals]
  have "handleMessage example_externals (example_dispatcher\<lparr>peerId := Some ''peer-1''\<rparr>)
       \<lparr>sender = ''peer-2'', payload_data = [9]\<rparr> =
     Inl (UnreachableCaseError (OtherMessage 9))"
    using cases [where d = "example_dispatcher\<lparr>peerId := Some ''peer-1''\<rparr>"
        and m = "\<lparr>sender = ''peer-2'', payload_data = [9]\<rparr>"] running parsed
    by simp
  moreover have "handleMessage example_externals (example_dispatcher\<lparr>peerId := Some ''peer-1''\<rparr>)
       \<lparr>sender = ''peer-1'', payload_data = [9]\<rparr> =
     Inr (example_dispatcher\<lparr>peerId := Some ''peer-1''\<rparr>)"
    using cases [where d = "example_dispatcher\<lparr>peerId := Some ''peer-1''\<rparr>"
        and m = "\<lparr>sender = ''peer-1'', payload_data = [9]\<rparr>"] running
    by simp
  moreover have "handleMessage example_externals (close example_dispatcher)
       \<lparr>sender = ''peer-2'', payload_data = [9]\<rparr> =
     Inr (log_line (Err ''Dispatcher has been closed'') (close example_dispatcher))"
    using cases [where d = "close example_dispatcher"
        and m = "\<lparr>sender = ''peer-2'', payload_data = [9]\<rparr>"] closed
    by blast
  ultimately show ?thesis
    using parsed by simp
qed

text \<open>
  C9 as stated fails: a message whose bytes deserialize to an unknown typ is absorbed
  without an error when it comes from this peer.
\<close>

theorem own_message_of_unknown_typ_is_absorbed:
  "msg_typ (deserialize example_externals (payload_data \<lparr>sender = ''peer-1'', payload_data = [9]\<rparr>)) =
     OtherTyp 9 \<and>
   isRunning (example_dispatcher\<lparr>peerId := Some ''peer-1''\<rparr>) \<and>
   handleMessage example_externals (example_dispatcher\<lparr>peerId := Some ''peer-1''\<rparr>)
       \<lparr>sender = ''peer-1'', payload_data = [9]\<rparr> =
     Inr (example_dispatcher\<lparr>peerId := Some ''peer-1''\<rparr>)"
  by (simp add: handleMessage_def example_externals_def example_deserialize_def
                example_dispatcher_def new_dispatcher_def)


subsection \<open>The table of outstanding queries\<close>

lemma subscribe_body_table:
  "subscribe_body d = (r, d') \<Longrightarrow> outstandingQueryIds d' = outstandingQueryIds d"
  by (auto simp: subscribe_body_def log_line_def split: prod.splits sum.splits)

lemma subscribe_try_table:
  "subscribe_try d force = (r, d') \<Longrightarrow> outstandingQueryIds d' = outstandingQueryIds d"
  by (auto simp: subscribe_try_def split: prod.splits sum.splits if_splits
           dest: subscribe_body_table)

lemma subscribe_catch_table:
  "outstandingQueryIds (snd (subscribe_catch d thrown)) = outstandingQueryIds d"
  by (simp add: subscribe_catch_def log_line_def split: option.splits)

lemma subscribe_table: "outstandingQueryIds (snd (subscribe d force)) = outstandingQueryIds d"
proof -
  obtain r d' where tried: "subscribe_try d force = (r, d')"
    by (cases "subscribe_try d force")
  with subscribe_try_table [OF tried] show ?thesis
    by (cases r) (simp_all add: subscribe_def subscribe_catch_table)
qed

lemma subscribe_retry_table: "outstandingQueryIds (snd (subscribe_retry d)) = outstandingQueryIds d"
  by (simp add: subscribe_retry_def subscribe_table)

lemma init_table: "outstandingQueryIds (snd (init ext d)) = outstandingQueryIds d"
proof -
  let ?d1 = "d\<lparr>peerId := (case peerId d of
                              Some p \<Rightarrow> if p = [] then Some (node_id (ipfs d)) else Some p
                            | None \<Rightarrow> Some (node_id (ipfs d)))\<rparr>"
  obtain r d2 where sub: "subscribe ?d1 True = (r, d2)"
    by (cases "subscribe ?d1 True")
  from subscribe_table [of ?d1 True] sub have "outstandingQueryIds d2 = outstandingQueryIds d"
    by simp
  with sub show ?thesis
    by (cases r) (simp_all add: init_def Let_def resubscribe_def)
qed

lemma publish_table: "outstandingQueryIds (publish d message) = outstandingQueryIds d"
  by (simp add: publish_def log_line_def)

lemma storeCommit_table:
  "outstandingQueryIds (snd (storeCommit ext d data)) = outstandingQueryIds d"
  by (cases data)
     (simp_all add: storeCommit_def dag_put_def Let_def split: sum.splits)

lemma handleResponseMessage_table:
  "handleResponseMessage ext d qid tips = Inr d' \<Longrightarrow>
     outstandingQueryIds d' = outstandingQueryIds d"
  by (auto simp: handleResponseMessage_def emit_update_def
           split: option.splits if_splits table_value.splits)

lemma handleMessage_table:
  "handleMessage ext d m = Inr d' \<Longrightarrow> outstandingQueryIds d' = outstandingQueryIds d"
  by (auto simp: handleMessage_def handleQueryMessage_def handleUpdateMessage_def
                 publish_table emit_update_def log_line_def Let_def
           split: if_splits pubsub_message.splits option.splits
           dest: handleResponseMessage_table)

lemma after_table:
  "outstandingQueryIds (after ext d op) =
     (case op of
        Op_register doc \<Rightarrow>
          (outstandingQueryIds d)(p_id (buildQueryMessage ext doc) \<mapsto> baseID (doc_id doc))
      | _ \<Rightarrow> outstandingQueryIds d)"
proof (cases op)
  case (Op_handleMessage m)
  then show ?thesis
    by (cases "handleMessage ext d m") (simp_all add: handleMessage_table)
qed (simp_all add: init_table Let_def subscribe_table subscribe_retry_table resubscribe_def
       resubscribe_tick_def register_def log_line_def unregister_def storeCommit_table
       publishTip_def publish_table close_def)

lemma after_keeps_keys:
  "dom (outstandingQueryIds d) \<subseteq> dom (outstandingQueryIds (after ext d op))"
  by (cases op) (auto simp add: after_table simp del: after.simps)

lemma lifetime_keeps_keys:
  "dom (outstandingQueryIds d) \<subseteq> dom (outstandingQueryIds (lifetime ext d ops))"
  unfolding lifetime_def
proof (induction ops arbitrary: d)
  case Nil
  show ?case by simp
next
  case (Cons op ops)
  from after_keeps_keys [of d ext op] Cons.IH [of "after ext d op"] show ?case
    by (simp del: after.simps)
qed

text \<open>
  C10. Once \<^verbatim>\<open>register\<close> has put a query id into the table of outstanding queries,
  no operation of the dispatcher removes it: the keys of the table only grow over a
  lifetime, \<^verbatim>\<open>register\<close> is the one operation that writes the table, and handling an
  inbound message (a matching RESPONSE among them) and \<^verbatim>\<open>close\<close> leave the table as it
  is.
\<close>

theorem outstanding_queries_only_grow:
  "outstandingQueryIds (register ext d doc) (p_id (buildQueryMessage ext doc)) =
     Some (baseID (doc_id doc)) \<and>
   p_id (buildQueryMessage ext doc) \<in>
     dom (outstandingQueryIds (lifetime ext (register ext d doc) ops)) \<and>
   dom (outstandingQueryIds d) \<subseteq> dom (outstandingQueryIds (lifetime ext d ops)) \<and>
   outstandingQueryIds (after ext d (Op_handleMessage m)) = outstandingQueryIds d \<and>
   (case handleResponseMessage ext d qid tips of
      Inl e \<Rightarrow> True
    | Inr d' \<Rightarrow> outstandingQueryIds d' = outstandingQueryIds d) \<and>
   outstandingQueryIds (close d) = outstandingQueryIds d"
proof -
  have entry: "outstandingQueryIds (register ext d doc) (p_id (buildQueryMessage ext doc)) =
      Some (baseID (doc_id doc))"
    by (simp add: register_def Let_def log_line_def)
  then have "p_id (buildQueryMessage ext doc) \<in> dom (outstandingQueryIds (register ext d doc))"
    by blast
  with lifetime_keeps_keys [of "register ext d doc" ext ops]
  have kept: "p_id (buildQueryMessage ext doc) \<in>
      dom (outstandingQueryIds (lifetime ext (register ext d doc) ops))"
    by blast
  have message: "outstandingQueryIds (after ext d (Op_handleMessage m)) = outstandingQueryIds d"
    by (simp add: after_table del: after.simps)
  have response: "(case handleResponseMessage ext d qid tips of
      Inl e \<Rightarrow> True
    | Inr d' \<Rightarrow> outstandingQueryIds d' = outstandingQueryIds d)"
    by (simp add: handleResponseMessage_table split: sum.splits)
  have closing: "outstandingQueryIds (close d) = outstandingQueryIds d"
    by (simp add: close_def Let_def)
  from entry kept lifetime_keeps_keys [of d ext ops] message response closing show ?thesis
    by blast
qed

theorem outstanding_queries_only_grow_witness:
  "''EgEG'' \<in> dom (outstandingQueryIds
      (lifetime example_externals example_registered
         [Op_handleMessage \<lparr>sender = ''peer-2'', payload_data = [2, 5]\<rparr>,
          Op_handleMessage \<lparr>sender = ''peer-2'', payload_data = [2, 5]\<rparr>,
          Op_unregister example_docid, Op_close]))"
  using outstanding_queries_only_grow
          [of example_externals example_dispatcher example_document
              "[Op_handleMessage \<lparr>sender = ''peer-2'', payload_data = [2, 5]\<rparr>,
                Op_handleMessage \<lparr>sender = ''peer-2'', payload_data = [2, 5]\<rparr>,
                Op_unregister example_docid, Op_close]"]
  by (simp add: example_query_id example_registered_def del: after.simps)


subsection \<open>Subscribing\<close>

text \<open>
  What \<^verbatim>\<open>_subscribe\<close> does where every thrown value has a message. When it is not
  forced and the list the node answers holds the topic, nothing is subscribed or
  unsubscribed and nothing is logged. A failure of any of the three calls reaches the
  \<^verbatim>\<open>catch\<close> with the dispatcher as the calls before it have left it: \<^verbatim>\<open>ls\<close>,
  \<^verbatim>\<open>unsubscribe\<close> or \<^verbatim>\<open>subscribe\<close> when not forced, \<^verbatim>\<open>unsubscribe\<close> or
  \<^verbatim>\<open>subscribe\<close> when forced. In the \<^verbatim>\<open>catch\<close> an error whose message says already
  subscribed is noted and dropped, an error of an aborted request (and not of the first
  kind) starts exactly one forced retry, and every other message is written to the error
  log; in these cases \<^verbatim>\<open>_subscribe\<close> returns.
\<close>

lemma subscribe_quiet:
  assumes "topic d \<in> set (subscriptions (ipfs d))"
    and "faults (ipfs d) = [] \<or> faults (ipfs d) = Answers # fs"
  shows "subscribe d False = (Inr (), d\<lparr>ipfs := (ipfs d)\<lparr>faults := tl (faults (ipfs d))\<rparr>\<rparr>)"
  using assms
  by (auto simp: subscribe_def subscribe_try_def pubsub_ls_def next_fault_def)

lemma subscribe_forced_succeeds:
  assumes "faults (ipfs d) = []"
  shows "subscribe d True =
     (Inr (),
      d\<lparr>ipfs := (ipfs d)\<lparr>subscriptions := removeAll (topic d) (subscriptions (ipfs d)) @ [topic d]\<rparr>,
        logged := logged d @ [PubsubLog (peerId d) ''subscribed'' (topic d) None]\<rparr>)"
  using assms
  by (simp add: subscribe_def subscribe_try_def subscribe_body_def pubsub_unsubscribe_handler_def
                pubsub_subscribe_def next_fault_def log_line_def)

lemma subscribe_failure_reaches_catch:
  "(faults (ipfs d) = Throws m # fs \<longrightarrow>
      subscribe d False = subscribe_catch (d\<lparr>ipfs := (ipfs d)\<lparr>faults := fs\<rparr>\<rparr>) m \<and>
      subscribe d True = subscribe_catch (d\<lparr>ipfs := (ipfs d)\<lparr>faults := fs\<rparr>\<rparr>) m) \<and>
   (faults (ipfs d) = Answers # Throws m # fs \<and> topic d \<notin> set (subscriptions (ipfs d)) \<longrightarrow>
      subscribe d False = subscribe_catch (d\<lparr>ipfs := (ipfs d)\<lparr>faults := fs\<rparr>\<rparr>) m) \<and>
   (faults (ipfs d) = Answers # Answers # Throws m # fs \<and>
    topic d \<notin> set (subscriptions (ipfs d)) \<longrightarrow>
      subscribe d False = subscribe_catch (d\<lparr>ipfs := (ipfs d)\<lparr>faults := fs\<rparr>\<rparr>) m) \<and>
   (faults (ipfs d) = Answers # Throws m # fs \<longrightarrow>
      subscribe d True =
        subscribe_catch
          (d\<lparr>ipfs := (ipfs d)\<lparr>subscriptions := removeAll (topic d) (subscriptions (ipfs d)),
                              faults := fs\<rparr>\<rparr>) m)"
  by (simp add: subscribe_def subscribe_try_def subscribe_body_def pubsub_ls_def
                pubsub_unsubscribe_handler_def pubsub_subscribe_def next_fault_def)

lemma subscribe_catch_cases:
  "(str_includes msg ''Already subscribed'' \<longrightarrow>
      subscribe_catch d (Some msg) = (Inr (), d\<lparr>logged := logged d @ [Debug msg]\<rparr>)) \<and>
   (\<not> str_includes msg ''Already subscribed'' \<and> str_includes msg ''The user aborted a request'' \<longrightarrow>
      subscribe_catch d (Some msg) = (Inr (), d\<lparr>pendingRetries := pendingRetries d + 1\<rparr>)) \<and>
   (\<not> str_includes msg ''Already subscribed'' \<and>
    \<not> str_includes msg ''The user aborted a request'' \<longrightarrow>
      subscribe_catch d (Some msg) = (Inr (), d\<lparr>logged := logged d @ [Err msg]\<rparr>))"
  by (simp add: subscribe_catch_def log_line_def)

lemma subscribe_retry_runs_forced:
  "pendingRetries d = Suc k \<Longrightarrow> subscribe_retry d = subscribe (d\<lparr>pendingRetries := k\<rparr>) True"
  by (simp add: subscribe_retry_def)

lemma subscribe_aborted_then_retried:
  "subscribe (example_faulty [Answers, Throws (Some ''The user aborted a request'')]) True =
     (Inr (), (example_faulty [])\<lparr>pendingRetries := 1\<rparr>) \<and>
   subscribe_retry ((example_faulty [])\<lparr>pendingRetries := 1\<rparr>) =
     (Inr (),
      example_dispatcher
        \<lparr>ipfs := example_node\<lparr>subscriptions := [''/ceramic/inmemory'']\<rparr>,
         logged := [PubsubLog None ''subscribed'' ''/ceramic/inmemory'' None]\<rparr>)"
  by (simp add: subscribe_retry_def subscribe_def subscribe_catch_def subscribe_try_def
                subscribe_body_def pubsub_unsubscribe_handler_def pubsub_subscribe_def
                next_fault_def log_line_def example_faulty_def example_dispatcher_def
                new_dispatcher_def example_node_def)

lemma subscribe_other_error_is_logged:
  "subscribe (example_faulty [Answers, Throws (Some ''connection refused'')]) True =
     (Inr (), (example_faulty [])\<lparr>logged := [Err ''connection refused'']\<rparr>) \<and>
   subscribe (example_faulty [Throws (Some ''connection refused'')]) False =
     (Inr (), (example_faulty [])\<lparr>logged := [Err ''connection refused'']\<rparr>) \<and>
   subscribe (example_faulty [Answers, Throws (Some ''Already subscribed'')]) True =
     (Inr (), (example_faulty [])\<lparr>logged := [Debug ''Already subscribed'']\<rparr>)"
  by (simp add: subscribe_def subscribe_catch_def subscribe_try_def
                subscribe_body_def pubsub_ls_def pubsub_unsubscribe_handler_def
                pubsub_subscribe_def next_fault_def log_line_def example_faulty_def
                example_dispatcher_def new_dispatcher_def example_node_def)

text \<open>
  C8, the code at the failing input. The claim has every other subscription error
  logged and never raised to the caller, and the source documents \<^verbatim>\<open>_subscribe\<close> with
  "Logs error if subscribe fails". The \<^verbatim>\<open>catch\<close> reads the message of what was thrown
  before it logs anything: when \<^verbatim>\<open>pubsub.subscribe\<close> (or \<^verbatim>\<open>unsubscribe\<close>, or
  \<^verbatim>\<open>ls\<close>) throws a value that has no message, a \<^verbatim>\<open>TypeError\<close> leaves
  \<^verbatim>\<open>_subscribe\<close>, nothing is logged, and \<^verbatim>\<open>init\<close>, which awaits it, fails with that
  error and arms no timer.
\<close>

theorem subscribe_error_without_message_is_raised:
  "subscribe (example_faulty [Answers, Throws None]) True =
     (Inl (TypeError ''error.message is undefined''), example_faulty []) \<and>
   subscribe (example_faulty [Throws None]) False =
     (Inl (TypeError ''error.message is undefined''), example_faulty []) \<and>
   logged (example_faulty []) = [] \<and>
   init example_externals (example_faulty [Answers, Throws None]) =
     (Inl (TypeError ''error.message is undefined''),
      (example_faulty [])\<lparr>peerId := Some ''peer-1''\<rparr>)"
  by (simp add: init_def Let_def subscribe_def subscribe_catch_def subscribe_try_def
                subscribe_body_def pubsub_ls_def pubsub_unsubscribe_handler_def
                pubsub_subscribe_def next_fault_def example_faulty_def
                example_dispatcher_def new_dispatcher_def example_node_def)

subsection \<open>Fork choice\<close>

lemma fork_choice_beats: "fork_choice A B = (if beats B A then B else A)"
  by (auto simp: fork_choice_def beats_def smaller_identifier_def split: option.splits)

lemma beats_irrefl: "\<not> beats A A"
  by (auto simp: beats_def split: option.splits)

lemma beats_trans: "beats A B \<Longrightarrow> beats B C \<Longrightarrow> beats A C"
  by (auto simp: beats_def split: option.splits)

lemma beats_asym: "beats A B \<Longrightarrow> \<not> beats B A"
  by (auto simp: beats_def split: option.splits)

lemma beats_total: "tip_id A \<noteq> tip_id B \<Longrightarrow> beats A B \<or> beats B A"
  by (auto simp: beats_def split: option.splits)

lemma handleTip_beats:
  "fst (handleTip F S t) = (if t \<noteq> tip_id S \<and> beats (F t) S then F t else S)"
  by (simp add: handleTip_def fork_choice_beats Let_def)

lemma handleTip_consistent:
  "F (tip_id S) = S \<Longrightarrow> fst (handleTip F S t) = (if beats (F t) S then F t else S)"
  by (auto simp: handleTip_beats beats_irrefl)

lemma handleTip_keeps_consistent:
  "F (tip_id S) = S \<Longrightarrow> tip_id (F t) = t \<Longrightarrow>
     F (tip_id (fst (handleTip F S t))) = fst (handleTip F S t)"
  by (simp add: handleTip_consistent)

lemma pick_commute:
  assumes total: "X \<noteq> Y \<Longrightarrow> beats X Y \<or> beats Y X"
  shows "(if beats Y (if beats X S then X else S) then Y else (if beats X S then X else S)) =
         (if beats X (if beats Y S then Y else S) then X else (if beats Y S then Y else S))"
proof (cases "beats X S")
  case xs: True
  show ?thesis
  proof (cases "beats Y S")
    case ys: True
    show ?thesis
    proof (cases "beats Y X")
      case True
      with xs ys beats_asym [of Y X] show ?thesis by simp
    next
      case False
      with xs ys total show ?thesis by auto
    qed
  next
    case ys: False
    with xs beats_trans [of Y X S] show ?thesis by auto
  qed
next
  case xs: False
  show ?thesis
  proof (cases "beats Y S")
    case ys: True
    with xs beats_trans [of X Y S] show ?thesis by auto
  next
    case ys: False
    with xs show ?thesis by simp
  qed
qed

lemma beats_between:
  assumes "beats X Z" "Y \<noteq> Z \<Longrightarrow> tip_id Y \<noteq> tip_id Z"
  shows "beats X Y \<or> beats Y Z"
proof (cases "Y = Z")
  case True
  with assms(1) show ?thesis by simp
next
  case False
  with assms(2) beats_total [of Y Z] have "beats Y Z \<or> beats Z Y" by simp
  with assms(1) beats_trans [of X Z Y] show ?thesis by blast
qed

lemma handleTips_best:
  assumes "F (tip_id S) = S" "\<forall>t \<in> set ts. tip_id (F t) = t"
  shows "best_of F S (set ts) (handleTips F S ts)"
  using assms
proof (induction ts arbitrary: S)
  case Nil
  then show ?case by (simp add: best_of_def beats_irrefl)
next
  case (Cons t ts)
  let ?S1 = "fst (handleTip F S t)"
  let ?R = "handleTips F ?S1 ts"
  from Cons.prems have t: "tip_id (F t) = t" and rest: "\<forall>u \<in> set ts. tip_id (F u) = u"
    by simp_all
  have s1: "?S1 = (if beats (F t) S then F t else S)"
    by (rule handleTip_consistent [of F S, OF Cons.prems(1)])
  have c1: "F (tip_id ?S1) = ?S1"
    by (rule handleTip_keeps_consistent [of F S t, OF Cons.prems(1) t])
  from Cons.IH [OF c1 rest] have ih: "best_of F ?S1 (set ts) ?R" .
  then have cR: "F (tip_id ?R) = ?R" and mem: "?R = ?S1 \<or> ?R \<in> F ` set ts"
    and nb1: "\<not> beats ?S1 ?R" and nbs: "\<forall>u \<in> set ts. \<not> beats (F u) ?R"
    by (simp_all add: best_of_def)
  have distinct_tips: "Y \<noteq> ?R \<Longrightarrow> F (tip_id Y) = Y \<Longrightarrow> tip_id Y \<noteq> tip_id ?R" for Y
    using cR by metis
  have nS: "\<not> beats S ?R"
  proof
    assume b: "beats S ?R"
    from beats_between [OF b, of ?S1] distinct_tips [of ?S1] c1 nb1
    have "beats S ?S1" by blast
    with s1 beats_irrefl [of S] beats_asym [of S "F t"] show False
      by (auto split: if_splits)
  qed
  have nT: "\<not> beats (F t) ?R"
  proof
    assume b: "beats (F t) ?R"
    from beats_between [OF b, of ?S1] distinct_tips [of ?S1] c1 nb1
    have "beats (F t) ?S1" by blast
    with s1 beats_irrefl [of "F t"] show False
      by (auto split: if_splits)
  qed
  from mem s1 have "?R = S \<or> ?R \<in> F ` set (t # ts)"
    by (auto split: if_splits)
  with cR nS nT nbs show ?case
    by (simp add: best_of_def)
qed

lemma best_unique:
  assumes "best_of F S T R" "best_of F S T R'"
  shows "R = R'"
proof (rule ccontr)
  assume ne: "R \<noteq> R'"
  from assms(1,2) have c: "F (tip_id R) = R" "F (tip_id R') = R'"
    by (simp_all add: best_of_def)
  with ne have "tip_id R \<noteq> tip_id R'" by metis
  from beats_total [OF this] have "beats R R' \<or> beats R' R" .
  moreover from assms(1,2) have "\<not> beats R R'" "\<not> beats R' R"
    by (auto simp: best_of_def)
  ultimately show False by blast
qed

lemma example_tips_of_logs:
  "tip_id example_initial = [1]" "tip_id example_valid = [4]" "tip_id example_invalid = [6]"
  "tip_id example_long = [8]"
  by (simp_all add: tip_id_def log_tip_def example_initial_def example_valid_def
                    example_invalid_def example_long_def)

lemma example_anchors:
  "anchor_timestamp (log_tip example_initial) = None"
  "anchor_timestamp (log_tip example_valid) = Some 20"
  "anchor_timestamp (log_tip example_invalid) = Some 30"
  "anchor_timestamp (log_tip example_long) = None"
  by (simp_all add: log_tip_def example_initial_def example_valid_def example_invalid_def
                    example_long_def)

text \<open>
  C1. Fork choice does not depend on the order of delivery. Where the block store names
  logs by their tips (the current log is the one stored for its tip, and the log fetched
  for a tip has that tip), \<^verbatim>\<open>handleTip(A)\<close> then \<^verbatim>\<open>handleTip(B)\<close> leaves the same
  current log, hence the same tip, as \<^verbatim>\<open>handleTip(B)\<close> then \<^verbatim>\<open>handleTip(A)\<close>.
  Delivering a tip a second time changes nothing and fires no change event. And two
  replicas that start from the same log and are delivered the same set of tips, in any
  order and any number of times, end with the same log.
\<close>

theorem fork_choice_order_independent:
  "(fetchLog (tip_id S) = S \<and> tip_id (fetchLog A) = A \<and> tip_id (fetchLog B) = B \<longrightarrow>
      fst (handleTip fetchLog (fst (handleTip fetchLog S A)) B) =
      fst (handleTip fetchLog (fst (handleTip fetchLog S B)) A)) \<and>
   handleTip fetchLog (fst (handleTip fetchLog S A)) A = (fst (handleTip fetchLog S A), None) \<and>
   (fetchLog (tip_id S) = S \<and> (\<forall>t \<in> set ts. tip_id (fetchLog t) = t) \<and> set ts = set ts' \<longrightarrow>
      handleTips fetchLog S ts = handleTips fetchLog S ts')"
proof -
  have commute: "fst (handleTip fetchLog (fst (handleTip fetchLog S A)) B) =
      fst (handleTip fetchLog (fst (handleTip fetchLog S B)) A)"
    if stored: "fetchLog (tip_id S) = S" and a: "tip_id (fetchLog A) = A"
      and b: "tip_id (fetchLog B) = B"
  proof -
    have total: "fetchLog A \<noteq> fetchLog B \<Longrightarrow>
        beats (fetchLog A) (fetchLog B) \<or> beats (fetchLog B) (fetchLog A)"
      using a b beats_total [of "fetchLog A" "fetchLog B"] by auto
    have "fst (handleTip fetchLog (fst (handleTip fetchLog S A)) B) =
            (if beats (fetchLog B) (if beats (fetchLog A) S then fetchLog A else S) then fetchLog B
             else (if beats (fetchLog A) S then fetchLog A else S))"
      using handleTip_consistent [of fetchLog "fst (handleTip fetchLog S A)" B]
        handleTip_keeps_consistent [of fetchLog S A, OF stored a]
      by (simp add: handleTip_consistent [of fetchLog S, OF stored])
    moreover have "fst (handleTip fetchLog (fst (handleTip fetchLog S B)) A) =
            (if beats (fetchLog A) (if beats (fetchLog B) S then fetchLog B else S) then fetchLog A
             else (if beats (fetchLog B) S then fetchLog B else S))"
      using handleTip_consistent [of fetchLog "fst (handleTip fetchLog S B)" A]
        handleTip_keeps_consistent [of fetchLog S B, OF stored b]
      by (simp add: handleTip_consistent [of fetchLog S, OF stored])
    ultimately show ?thesis
      using pick_commute [of "fetchLog A" "fetchLog B" S, OF total] by simp
  qed
  have again: "handleTip fetchLog (fst (handleTip fetchLog S A)) A =
      (fst (handleTip fetchLog S A), None)"
    by (auto simp: handleTip_def fork_choice_beats Let_def beats_irrefl)
  have converge: "handleTips fetchLog S ts = handleTips fetchLog S ts'"
    if stored: "fetchLog (tip_id S) = S" and named: "\<forall>t \<in> set ts. tip_id (fetchLog t) = t"
      and same: "set ts = set ts'"
  proof -
    from named same have "\<forall>t \<in> set ts'. tip_id (fetchLog t) = t" by simp
    from handleTips_best [of fetchLog S ts', OF stored this] same
    have "best_of fetchLog S (set ts) (handleTips fetchLog S ts')" by simp
    with handleTips_best [of fetchLog S ts, OF stored named] show ?thesis
      by (rule best_unique)
  qed
  from commute again converge show ?thesis
    by blast
qed


theorem fork_choice_order_independent_witness:
  "example_fetchLog (tip_id example_initial) = example_initial \<and>
   tip_id (example_fetchLog [4]) = [4] \<and>
   tip_id (example_fetchLog [6]) = [6] \<and>
   fst (handleTip example_fetchLog (fst (handleTip example_fetchLog example_initial [4])) [6]) =
     example_valid \<and>
   fst (handleTip example_fetchLog (fst (handleTip example_fetchLog example_initial [6])) [4]) =
     example_valid \<and>
   handleTips example_fetchLog example_initial [[6], [4], [6]] =
     handleTips example_fetchLog example_initial [[4], [6]]"
proof -
  have stored: "example_fetchLog (tip_id example_initial) = example_initial"
    unfolding example_tips_of_logs example_fetchLog_def
    by (simp add: example_initial_def)
  have a: "tip_id (example_fetchLog [4]) = [4]"
    by (simp add: example_tips_of_logs example_fetchLog_def)
  have b: "tip_id (example_fetchLog [6]) = [6]"
    by (simp add: example_tips_of_logs example_fetchLog_def)
  have named: "\<forall>t \<in> set [[6], [4], [6]]. tip_id (example_fetchLog t) = t"
    using a b by simp
  have sets: "set [[6], [4], [6 :: byte]] = set [[4], [6]]"
    by auto
  note independent = fork_choice_order_independent
      [where fetchLog = example_fetchLog and S = example_initial and A = "[4]" and B = "[6]"
         and ts = "[[6], [4], [6]]" and ts' = "[[4], [6]]"]
  have valid_first:
    "fst (handleTip example_fetchLog (fst (handleTip example_fetchLog example_initial [4])) [6]) =
       example_valid"
    by (simp add: handleTip_def fork_choice_def Let_def example_tips_of_logs example_anchors
                  example_fetchLog_def)
  from independent stored a b
  have "fst (handleTip example_fetchLog (fst (handleTip example_fetchLog example_initial [4])) [6]) =
        fst (handleTip example_fetchLog (fst (handleTip example_fetchLog example_initial [6])) [4])"
    by blast
  with valid_first
  have invalid_first:
    "fst (handleTip example_fetchLog (fst (handleTip example_fetchLog example_initial [6])) [4]) =
       example_valid"
    by simp
  from independent stored named sets
  have "handleTips example_fetchLog example_initial [[6], [4], [6]] =
        handleTips example_fetchLog example_initial [[4], [6]]"
    by blast
  with stored a b valid_first invalid_first show ?thesis
    by blast
qed

text \<open>
  C2. For every pair of competing logs of which exactly one has an anchored tip, fork
  choice selects the anchored log, whichever of the two is the current one and
  whichever has more commits; \<^verbatim>\<open>handleTip\<close> accordingly takes an anchored candidate
  over a current log that is not anchored and keeps an anchored current log against a
  candidate that is not.
\<close>

theorem anchored_tip_wins:
  "(tip_anchored A \<and> \<not> tip_anchored B \<longrightarrow> fork_choice A B = A \<and> fork_choice B A = A) \<and>
   (tip_anchored (fetchLog t) \<and> \<not> tip_anchored S \<and> t \<noteq> tip_id S \<longrightarrow>
      fst (handleTip fetchLog S t) = fetchLog t) \<and>
   (tip_anchored S \<and> \<not> tip_anchored (fetchLog t) \<longrightarrow> fst (handleTip fetchLog S t) = S)"
  by (auto simp: handleTip_def fork_choice_def tip_anchored_def Let_def split: option.splits)

theorem anchored_tip_wins_witness:
  "tip_anchored example_valid \<and> \<not> tip_anchored example_long \<and>
   log_length example_valid < log_length example_long \<and>
   fork_choice example_valid example_long = example_valid \<and>
   fork_choice example_long example_valid = example_valid \<and>
   fst (handleTip example_fetchLog example_long [4]) = example_valid \<and>
   fst (handleTip example_fetchLog example_valid [8]) = example_valid"
proof -
  have anchored: "tip_anchored example_valid \<and> \<not> tip_anchored example_long"
    by (simp add: tip_anchored_def example_anchors)
  have shorter: "log_length example_valid < log_length example_long"
    by (simp add: log_length_def example_valid_def example_long_def)
  have candidate:
    "tip_anchored (example_fetchLog [4]) \<and> \<not> tip_anchored example_long \<and>
     [4] \<noteq> tip_id example_long"
    using anchored by (simp add: example_fetchLog_def example_tips_of_logs)
  have current: "tip_anchored example_valid \<and> \<not> tip_anchored (example_fetchLog [8])"
    using anchored by (simp add: example_fetchLog_def)
  note wins = anchored_tip_wins [where A = example_valid and B = example_long
      and fetchLog = example_fetchLog]
  from wins anchored
  have choice: "fork_choice example_valid example_long = example_valid \<and>
      fork_choice example_long example_valid = example_valid"
    by blast
  from wins [where S = example_long and t = "[4]"] candidate
  have "fst (handleTip example_fetchLog example_long [4]) = example_fetchLog [4]"
    by blast
  then have taken: "fst (handleTip example_fetchLog example_long [4]) = example_valid"
    by (simp add: example_fetchLog_def)
  from wins [where S = example_valid and t = "[8]"] current
  have kept: "fst (handleTip example_fetchLog example_valid [8]) = example_valid"
    by blast
  from anchored shorter choice taken kept show ?thesis
    by blast
qed


end
